theory Spec2Isabelle
  imports Main "HOL-Library.Sublist" "HOL-Library.Char_ord" "HOL-Library.List_Lexorder"
begin

section \<open>Python values, exceptions and effects\<close>

text \<open>
  The gate code (\<^verbatim>\<open>fraim.py\<close>, \<^verbatim>\<open>workflows.py\<close>, \<^verbatim>\<open>github_utils.py\<close>) is dynamically
  typed: the workflow arguments come out of \<^verbatim>\<open>json.loads\<close>, and values are tested by
  truthiness and by \<^verbatim>\<open>==\<close>. A value is therefore a \<open>pyval\<close>: a JSON value as
  \<^verbatim>\<open>json.loads\<close> returns it. Floating point numbers are left out.
\<close>

datatype pyval =
    PNone
  | PBool bool
  | PInt int
  | PStr string
  | PList "pyval list"
  | PDict "(string \<times> pyval) list"

text \<open>Truthiness, as \<^verbatim>\<open>if x:\<close> and \<^verbatim>\<open>not x\<close> test it.\<close>

fun truthy :: "pyval \<Rightarrow> bool" where
  "truthy PNone = False"
| "truthy (PBool b) = b"
| "truthy (PInt i) = (i \<noteq> 0)"
| "truthy (PStr s) = (s \<noteq> [])"
| "truthy (PList xs) = (xs \<noteq> [])"
| "truthy (PDict d) = (d \<noteq> [])"

text \<open>\<^verbatim>\<open>x == True\<close>: \<^verbatim>\<open>bool\<close> is a subclass of \<^verbatim>\<open>int\<close>, so \<^verbatim>\<open>1 == True\<close> holds too.\<close>

fun eq_True :: "pyval \<Rightarrow> bool" where
  "eq_True (PBool b) = b"
| "eq_True (PInt i) = (i = 1)"
| "eq_True _ = False"

text \<open>
  Failures of the version-control host (PyGithub raises \<^verbatim>\<open>GithubException\<close> with a status,
  or some other subclass of \<^verbatim>\<open>Exception\<close> such as a network error).
\<close>

datatype host_error = GithubException nat | OtherHostError

text \<open>
  What the program itself can raise. \<open>SystemExit\<close> is \<^verbatim>\<open>sys.exit\<close>; \<open>ScanFailure\<close> is the
  \<^verbatim>\<open>Exception\<close> that \<^verbatim>\<open>main\<close> raises on a non-zero exit status of the scanner, with the
  workflow and the status; \<open>SpawnError\<close> is an exception of \<^verbatim>\<open>subprocess.run\<close>, with its text;
  \<open>HostFailure\<close> is a failure of the host that a handler raises again.
\<close>

datatype exn =
    TypeError
  | ValueError
  | AttributeError
  | UnboundLocalError
  | JSONDecodeError
  | SystemExit int
  | ScanFailure string int
  | SpawnError string
  | HostFailure host_error

text \<open>
  An f-string is kept as the sequence of its parts, literal text and formatted values, so
  that \<^verbatim>\<open>str()\<close> of an arbitrary value need not be modelled.
\<close>

datatype fpart = Lit string | Fmt pyval

type_synonym fstring = "fpart list"

text \<open>
  The effects an invocation leaves behind, in order: a commit status created on the host
  (state, description, context, repository, commit), a run of the scanner, and a workflow
  command of level error or notice written to standard output. Debug logging
  (\<^verbatim>\<open>::debug::\<close>) and plain diagnostic prints are not recorded.
\<close>

datatype effect =
    StatusCreated string fstring fstring pyval string
  | ScanExecuted
  | WorkflowCommand fstring

type_synonym 'a res = "(exn + 'a) \<times> effect list"

definition bind_res :: "'a res \<Rightarrow> ('a \<Rightarrow> 'b res) \<Rightarrow> 'b res" where
  "bind_res m f =
     (case m of
        (Inl e, t) \<Rightarrow> (Inl e, t)
      | (Inr x, t) \<Rightarrow> (case f x of (r, t') \<Rightarrow> (r, t @ t')))"

definition pure_res :: "exn + 'a \<Rightarrow> 'a res" where
  "pure_res r = (r, [])"

definition emit :: "effect list \<Rightarrow> unit res" where
  "emit t = (Inr (), t)"

text \<open>\<^verbatim>\<open>d.get(k)\<close>: only a dict has the method.\<close>

fun dict_get :: "pyval \<Rightarrow> string \<Rightarrow> exn + pyval" where
  "dict_get (PDict d) k = Inr (case map_of d k of None \<Rightarrow> PNone | Some v \<Rightarrow> v)"
| "dict_get _ k = Inl AttributeError"

text \<open>
  \<^verbatim>\<open>needle in haystack\<close> on strings. \<^verbatim>\<open>s.split('/')[0]\<close> is the text before the first
  separator and \<^verbatim>\<open>s.split('/')[-1]\<close> the text after the last one (\<^verbatim>\<open>split\<close> never returns
  an empty list); \<^verbatim>\<open>s.lstrip('@')\<close> drops the leading \<^verbatim>\<open>@\<close> characters.
\<close>

fun str_contains :: "string \<Rightarrow> string \<Rightarrow> bool" where
  "str_contains needle [] = (needle = [])"
| "str_contains needle (c # cs) = (prefix needle (c # cs) \<or> str_contains needle cs)"

definition first_segment :: "string \<Rightarrow> string" where
  "first_segment s = takeWhile (\<lambda>c. c \<noteq> CHR ''/'') s"

definition last_segment :: "string \<Rightarrow> string" where
  "last_segment s = rev (takeWhile (\<lambda>c. c \<noteq> CHR ''/'') (rev s))"

definition lstrip_at :: "string \<Rightarrow> string" where
  "lstrip_at s = dropWhile (\<lambda>c. c = CHR ''@'') s"

section \<open>The process environment and the host\<close>

text \<open>
  The environment variables the code reads. Every read is either
  \<^verbatim>\<open>os.environ.get(k, '')\<close> or is tested by truthiness only, so an unset variable and an
  empty one behave alike and both are the empty string here.
\<close>

record env =
  GITHUB_EVENT_NAME :: string
  GITHUB_BASE_SHA :: string
  GITHUB_SHA :: string
  GITHUB_REPOSITORY :: string
  GH_TOKEN :: string
  GITHUB_TOKEN :: string
  INPUT_WORKFLOW :: string
  INPUT_MODEL :: string

text \<open>
  A lazily fetched list of the host (PyGithub's \<^verbatim>\<open>PaginatedList\<close>): iterating it yields
  items and may fail when a further page is fetched.
\<close>

datatype 'a paginated = PgEnd | PgItem 'a "'a paginated" | PgFail host_error

record review =
  review_state :: string
  review_login :: string

text \<open>
  The host as the code queries it. An eager query answers \<open>None\<close> when it succeeds and
  \<open>Some e\<close> when it fails; the arguments are the values the code passes.
\<close>

record host =
  h_get_repo :: "pyval \<Rightarrow> host_error option"
  h_get_pull :: "pyval \<Rightarrow> pyval \<Rightarrow> host_error option"
  h_get_reviews :: "pyval \<Rightarrow> pyval \<Rightarrow> review paginated"
  h_get_issue_comments :: "pyval \<Rightarrow> pyval \<Rightarrow> string paginated"
  h_get_organization :: "string \<Rightarrow> host_error option"
  h_get_team_by_slug :: "string \<Rightarrow> string \<Rightarrow> host_error option"
  h_get_members :: "string \<Rightarrow> string \<Rightarrow> string paginated"
  h_get_commit :: "pyval \<Rightarrow> string \<Rightarrow> host_error option"
  h_create_status :: "pyval \<Rightarrow> string \<Rightarrow> string \<Rightarrow> fstring \<Rightarrow> fstring \<Rightarrow> host_error option"

section \<open>github_utils.py\<close>

text \<open>
  \<^verbatim>\<open>get_github_client\<close>: the token is \<^verbatim>\<open>GH_TOKEN or GITHUB_TOKEN\<close>; without one it raises
  \<^verbatim>\<open>ValueError\<close>. The client it returns is an object, which is always truthy.
\<close>

definition get_github_client :: "env \<Rightarrow> exn + string" where
  "get_github_client e =
     (let github_token = (if GH_TOKEN e \<noteq> [] then GH_TOKEN e else GITHUB_TOKEN e)
      in if github_token = [] then Inl ValueError else Inr github_token)"

text \<open>
  \<^verbatim>\<open>create_status_check\<close>: the whole body is inside \<^verbatim>\<open>try\<close>, so it never raises; it returns
  the effects it had. Without a repository or a commit it returns before any host call.
\<close>

definition create_status_check ::
  "env \<Rightarrow> host \<Rightarrow> string \<Rightarrow> fstring \<Rightarrow> pyval \<Rightarrow> fstring \<Rightarrow> effect list" where
  "create_status_check e h state description github_repository context =
     (case get_github_client e of
        Inl _ \<Rightarrow> []
      | Inr _ \<Rightarrow>
          (let commit_sha = GITHUB_SHA e in
           if \<not> truthy github_repository \<or> commit_sha = [] then []
           else (case h_get_repo h github_repository of
                   Some _ \<Rightarrow> []
                 | None \<Rightarrow>
                     (case h_get_commit h github_repository commit_sha of
                        Some _ \<Rightarrow> []
                      | None \<Rightarrow>
                          (case h_create_status h github_repository commit_sha state
                                  description context of
                             Some _ \<Rightarrow> []
                           | None \<Rightarrow>
                               [StatusCreated state description context
                                  github_repository commit_sha])))))"

section \<open>workflows.py: approvers and approvals\<close>

text \<open>Iterating a lazily fetched list to its end, as a list comprehension does.\<close>

fun collect :: "'a paginated \<Rightarrow> host_error + 'a list" where
  "collect PgEnd = Inr []"
| "collect (PgFail e) = Inl e"
| "collect (PgItem x xs) = (case collect xs of Inl e \<Rightarrow> Inl e | Inr ys \<Rightarrow> Inr (x # ys))"

text \<open>
  The team name of an approver string: \<^verbatim>\<open>approver.lstrip('@')\<close>, and of an
  \<^verbatim>\<open>org/team\<close> form the part after the last \<^verbatim>\<open>/\<close>.
\<close>

definition team_name_of :: "string \<Rightarrow> string" where
  "team_name_of approver =
     (let team_name = lstrip_at approver
      in if CHR ''/'' \<in> set team_name then last_segment team_name else team_name)"

text \<open>\<^verbatim>\<open>get_team_members\<close>: any exception gives the empty list.\<close>

definition get_team_members :: "env \<Rightarrow> host \<Rightarrow> pyval \<Rightarrow> string \<Rightarrow> string list" where
  "get_team_members e h github_repository team_name =
     (case get_github_client e of
        Inl _ \<Rightarrow> []
      | Inr _ \<Rightarrow>
          (case github_repository of
             PStr r \<Rightarrow>
               (let org_name = first_segment r in
                case h_get_organization h org_name of
                  Some _ \<Rightarrow> []
                | None \<Rightarrow>
                    (case h_get_team_by_slug h org_name team_name of
                       Some _ \<Rightarrow> []
                     | None \<Rightarrow>
                         (case collect (h_get_members h org_name team_name) of
                            Inl _ \<Rightarrow> []
                          | Inr member_logins \<Rightarrow> member_logins)))
           | _ \<Rightarrow> []))"

text \<open>
  \<^verbatim>\<open>is_team_approver\<close>: true only when the team lookup succeeds. A value that is not a
  string has no \<^verbatim>\<open>split\<close> or \<^verbatim>\<open>lstrip\<close>; the \<^verbatim>\<open>AttributeError\<close> is caught like every other
  exception and gives false.
\<close>

definition is_team_approver :: "env \<Rightarrow> host \<Rightarrow> pyval \<Rightarrow> pyval \<Rightarrow> bool" where
  "is_team_approver e h approver github_repository =
     (if \<not> truthy approver \<or> \<not> truthy github_repository then False
      else (case get_github_client e of
              Inl _ \<Rightarrow> False
            | Inr _ \<Rightarrow>
                (case github_repository of
                   PStr r \<Rightarrow>
                     (case approver of
                        PStr a \<Rightarrow>
                          (let org_name = first_segment r; team_name = team_name_of a in
                           case h_get_organization h org_name of
                             Some _ \<Rightarrow> False
                           | None \<Rightarrow>
                               (case h_get_team_by_slug h org_name team_name of
                                  Some _ \<Rightarrow> False
                                | None \<Rightarrow> True))
                      | _ \<Rightarrow> False)
                 | _ \<Rightarrow> False)))"

text \<open>
  The two review loops of \<^verbatim>\<open>check_approver_approval\<close>: the first approving review of a team
  member, or of the approver itself, ends the scan with true; a failing page fetch raises.
\<close>

fun team_review_scan :: "string list \<Rightarrow> review paginated \<Rightarrow> host_error + bool" where
  "team_review_scan team_members PgEnd = Inr False"
| "team_review_scan team_members (PgFail e) = Inl e"
| "team_review_scan team_members (PgItem r rs) =
     (if review_state r = ''APPROVED'' \<and> review_login r \<in> set team_members then Inr True
      else team_review_scan team_members rs)"

fun user_review_scan :: "pyval \<Rightarrow> review paginated \<Rightarrow> host_error + bool" where
  "user_review_scan approver PgEnd = Inr False"
| "user_review_scan approver (PgFail e) = Inl e"
| "user_review_scan approver (PgItem r rs) =
     (if review_state r = ''APPROVED'' \<and> PStr (review_login r) = approver then Inr True
      else user_review_scan approver rs)"

text \<open>The \<^verbatim>\<open>try\<close> block of \<^verbatim>\<open>check_approver_approval\<close>, before its handlers.\<close>

definition approval_try :: "env \<Rightarrow> host \<Rightarrow> pyval \<Rightarrow> pyval \<Rightarrow> pyval \<Rightarrow> host_error + bool" where
  "approval_try e h approver github_repository pr_number =
     (case h_get_repo h github_repository of
        Some err \<Rightarrow> Inl err
      | None \<Rightarrow>
          (case h_get_pull h github_repository pr_number of
             Some err \<Rightarrow> Inl err
           | None \<Rightarrow>
               (let is_team = is_team_approver e h approver github_repository in
                if is_team then
                  (case approver of
                     PStr a \<Rightarrow>
                       (let team_name = team_name_of a;
                            team_members = get_team_members e h github_repository team_name
                        in if team_members = [] then Inr False
                           else team_review_scan team_members
                                  (h_get_reviews h github_repository pr_number))
                   | _ \<Rightarrow> Inr False)
                else user_review_scan approver
                       (h_get_reviews h github_repository pr_number))))"

text \<open>
  \<^verbatim>\<open>check_approver_approval\<close>. The three guards come first; then the client is fetched,
  outside the \<^verbatim>\<open>try\<close>; both handlers of the \<^verbatim>\<open>try\<close> return false.
\<close>

definition check_approver_approval :: "env \<Rightarrow> host \<Rightarrow> pyval \<Rightarrow> pyval \<Rightarrow> pyval \<Rightarrow> exn + bool" where
  "check_approver_approval e h approver github_repository pr_number =
     (if \<not> truthy approver then Inr False
      else if \<not> truthy github_repository then Inr False
      else if \<not> truthy pr_number then Inr False
      else (case get_github_client e of
              Inl err \<Rightarrow> Inl err
            | Inr github_client \<Rightarrow>
                (case approval_try e h approver github_repository pr_number of
                   Inl _ \<Rightarrow> Inr False
                 | Inr b \<Rightarrow> Inr b)))"

section \<open>workflows.py: the gate\<close>

text \<open>
  \<^verbatim>\<open>check_output_for_risk_findings\<close>: the marker string occurs in the captured output.
\<close>

definition risk_marker :: string where
  "risk_marker = ''The following security risks have been identified and require review''"

definition check_output_for_risk_findings :: "string \<Rightarrow> bool" where
  "check_output_for_risk_findings output_content = str_contains risk_marker output_content"

text \<open>
  \<^verbatim>\<open>check_security_risk_comment\<close>: like \<^verbatim>\<open>check_approver_approval\<close> it fetches the client
  outside its \<^verbatim>\<open>try\<close>.
\<close>

fun comment_scan :: "string paginated \<Rightarrow> host_error + bool" where
  "comment_scan PgEnd = Inr False"
| "comment_scan (PgFail e) = Inl e"
| "comment_scan (PgItem body rest) =
     (if str_contains ''Security Risk Review Required'' body then Inr True
      else comment_scan rest)"

definition check_security_risk_comment :: "env \<Rightarrow> host \<Rightarrow> pyval \<Rightarrow> pyval \<Rightarrow> exn + bool" where
  "check_security_risk_comment e h github_repository pr_number =
     (let commit_sha = GITHUB_SHA e in
      if commit_sha = [] \<or> \<not> truthy github_repository then Inr False
      else (case get_github_client e of
              Inl err \<Rightarrow> Inl err
            | Inr github_client \<Rightarrow>
                (case h_get_repo h github_repository of
                   Some _ \<Rightarrow> Inr False
                 | None \<Rightarrow>
                     (case h_get_pull h github_repository pr_number of
                        Some _ \<Rightarrow> Inr False
                      | None \<Rightarrow>
                          (case comment_scan (h_get_issue_comments h github_repository pr_number) of
                             Inl _ \<Rightarrow> Inr False
                           | Inr b \<Rightarrow> Inr b)))))"

text \<open>The three status descriptions and the status context, as the f-strings build them.\<close>

definition approved_description :: "pyval \<Rightarrow> fstring" where
  "approved_description approver =
     [Lit ''Security review completed. PR approved by '', Fmt approver, Lit ''.'']"

definition waiting_description :: "pyval \<Rightarrow> fstring" where
  "waiting_description approver_text =
     [Lit ''Security risks detected! Waiting for approval from '', Fmt approver_text, Lit ''.'']"

definition status_context :: "pyval \<Rightarrow> fstring" where
  "status_context workflow = [Lit ''fraim/'', Fmt workflow]"

definition approver_text_of :: "pyval \<Rightarrow> pyval" where
  "approver_text_of approver = (if truthy approver then approver else PStr ''[not specified]'')"

text \<open>
  \<^verbatim>\<open>handle_pull_request_review(args, workflow, should_block_pr, github_repository, pr_number)\<close>.
  A function is applied to the list of the positional values of the call; its parameters have
  no defaults, so a list of any other length raises \<^verbatim>\<open>TypeError\<close> before the body runs. On a
  review event the function ends the process with status 0.
\<close>

fun handle_pull_request_review :: "env \<Rightarrow> host \<Rightarrow> pyval list \<Rightarrow> unit res" where
  "handle_pull_request_review e h [args, workflow, should_block_pr, github_repository, pr_number] =
     (if GITHUB_EVENT_NAME e = ''pull_request_review'' then
        bind_res
          (if eq_True should_block_pr \<and> workflow = PStr ''risk_flagger'' then
             bind_res (pure_res (check_security_risk_comment e h github_repository pr_number))
               (\<lambda>risk_comment.
                  if risk_comment then
                    bind_res (pure_res (dict_get args ''approver''))
                      (\<lambda>approver.
                         bind_res
                           (pure_res (if truthy approver
                                      then check_approver_approval e h approver github_repository pr_number
                                      else Inr False))
                           (\<lambda>approved.
                              if approved then
                                emit (WorkflowCommand
                                        ([Lit ''::notice::''] @ approved_description approver)
                                      # create_status_check e h ''success''
                                          (approved_description approver) github_repository
                                          (status_context workflow))
                              else
                                (let approver_text = approver_text_of approver in
                                 emit (WorkflowCommand
                                         ([Lit ''::error::''] @ waiting_description approver_text)
                                       # create_status_check e h ''failure''
                                           (waiting_description approver_text) github_repository
                                           (status_context workflow)))))
                  else emit [WorkflowCommand
                               [Lit ''::notice::No security risks detected in this PR.'']])
           else emit [])
          (\<lambda>_. pure_res (Inl (SystemExit 0)))
      else emit [])"
| "handle_pull_request_review e h argv = pure_res (Inl TypeError)"

text \<open>
  \<^verbatim>\<open>handle_pull_request_block(args, workflow, should_block_pr, security_findings_found,
  github_repository, pr_number)\<close>: six parameters, none with a default.
\<close>

fun handle_pull_request_block :: "env \<Rightarrow> host \<Rightarrow> pyval list \<Rightarrow> unit res" where
  "handle_pull_request_block e h
     [args, workflow, should_block_pr, security_findings_found, github_repository, pr_number] =
     (if GITHUB_EVENT_NAME e = ''pull_request'' then
        if eq_True should_block_pr \<and> workflow = PStr ''risk_flagger'' then
          if truthy security_findings_found then
            bind_res (pure_res (dict_get args ''approver''))
              (\<lambda>approver.
                 bind_res
                   (pure_res (check_approver_approval e h approver github_repository pr_number))
                   (\<lambda>is_approved.
                      if is_approved then
                        emit (create_status_check e h ''success''
                                (approved_description approver) github_repository
                                (status_context workflow))
                      else
                        (let approver_text = approver_text_of approver in
                         emit ([WorkflowCommand
                                  [Lit ''::error::Security risks detected! This pull request is blocked pending security team approval.''],
                                WorkflowCommand
                                  [Lit ''::notice::@'', Fmt approver_text,
                                   Lit '' must review and approve this PR.'']]
                               @ create_status_check e h ''failure''
                                   (waiting_description approver_text) github_repository
                                   (status_context workflow)))))
          else emit []
        else emit []
      else emit [])"
| "handle_pull_request_block e h argv = pure_res (Inl TypeError)"

text \<open>
  \<^verbatim>\<open>add_global_args(workflow, args, github_repository)\<close>. On a \<^verbatim>\<open>pull_request\<close> event
  without both revisions it asks for an error status and ends the process with status 1.
\<close>

definition missing_sha_message :: "env \<Rightarrow> fstring" where
  "missing_sha_message e =
     [Lit ''Missing base or head SHA for PR diff scanning. GITHUB_BASE_SHA: '',
      Fmt (PStr (GITHUB_BASE_SHA e)), Lit '', GITHUB_SHA: '', Fmt (PStr (GITHUB_SHA e))]"

fun add_global_args :: "env \<Rightarrow> host \<Rightarrow> pyval list \<Rightarrow> pyval list res" where
  "add_global_args e h [workflow, args, github_repository] =
     (let global_args0 =
            (if workflow = PStr ''code'' \<or> workflow = PStr ''iac''
             then [PStr ''--output'', PStr ''fraim_outputs''] else [])
      in bind_res (pure_res (dict_get args ''confidence''))
           (\<lambda>confidence.
              let global_args1 =
                    global_args0 @ (if truthy confidence then [PStr ''--confidence'', confidence] else [])
              in bind_res (pure_res (dict_get args ''temperature''))
                   (\<lambda>temperature.
                      let global_args2 =
                            global_args1
                            @ (if truthy temperature then [PStr ''--temperature'', temperature] else []);
                          input_model = INPUT_MODEL e;
                          global_args3 =
                            global_args2
                            @ (if input_model \<noteq> [] then [PStr ''--model'', PStr input_model] else [])
                            @ [PStr ''--location'', PStr ''./'']
                      in if GITHUB_EVENT_NAME e = ''pull_request'' then
                           (let github_base_sha = GITHUB_BASE_SHA e; github_sha = GITHUB_SHA e in
                            if github_base_sha = [] \<or> github_sha = [] then
                              (Inl (SystemExit 1),
                               create_status_check e h ''error'' (missing_sha_message e)
                                 github_repository (status_context workflow))
                            else
                              (Inr (global_args3
                                    @ [PStr ''--diff'', PStr ''--base'', PStr github_base_sha,
                                       PStr ''--head'', PStr github_sha]), []))
                         else (Inr global_args3, []))))"
| "add_global_args e h argv = pure_res (Inl TypeError)"

section \<open>sarif_to_comment.py: the results document\<close>

text \<open>
  The results document as \<^verbatim>\<open>json.load\<close> returns it, read through the chains of
  \<^verbatim>\<open>.get(key, default)\<close> of the code. A field is absent (\<open>None\<close>) or has the type the
  format gives it; an intermediate object that is absent reads as \<^verbatim>\<open>{}\<close>, so only the
  leaves are optional. \<open>uri\<close> is \<^verbatim>\<open>physicalLocation.artifactLocation.uri\<close>, the four numbers
  are those of \<^verbatim>\<open>physicalLocation.region\<close>, \<open>r_help_text\<close> is \<^verbatim>\<open>help.text\<close>,
  \<open>message_text\<close> is \<^verbatim>\<open>message.text\<close>, and the driver fields are those of \<^verbatim>\<open>tool.driver\<close>.
  Strings are the UTF-8 bytes of the Python strings.
\<close>

record location =
  uri :: "string option"
  startLine :: "int option"
  endLine :: "int option"
  startColumn :: "int option"
  endColumn :: "int option"

record rule =
  r_name :: "string option"
  r_help_text :: "string option"

record result_entry =
  ruleName :: "string option"
  level_field :: "string option"
  message_text :: "string option"
  locations :: "location list"

record run =
  driver_name :: "string option"
  driver_version :: "string option"
  rules :: "rule list"
  results :: "result_entry list"

record sarif_data =
  runs :: "run list"

text \<open>Class \<^verbatim>\<open>SarifResult\<close>: a result with the rule found for it, if any.\<close>

record sarif_result =
  result_data :: result_entry
  rule_data :: "rule option"

definition message :: "sarif_result \<Rightarrow> string" where
  "message r = (case message_text (result_data r) of None \<Rightarrow> ''No message available'' | Some t \<Rightarrow> t)"

definition level :: "sarif_result \<Rightarrow> string" where
  "level r = (case level_field (result_data r) of None \<Rightarrow> ''warning'' | Some l \<Rightarrow> l)"

definition primary_location :: "sarif_result \<Rightarrow> location option" where
  "primary_location r = (case locations (result_data r) of [] \<Rightarrow> None | l # _ \<Rightarrow> Some l)"

definition file_path :: "sarif_result \<Rightarrow> string option" where
  "file_path r = (case primary_location r of None \<Rightarrow> None | Some l \<Rightarrow> uri l)"

definition start_line :: "sarif_result \<Rightarrow> int option" where
  "start_line r = (case primary_location r of None \<Rightarrow> None | Some l \<Rightarrow> startLine l)"

definition end_line :: "sarif_result \<Rightarrow> int option" where
  "end_line r =
     (case primary_location r of
        None \<Rightarrow> None
      | Some l \<Rightarrow> (case endLine l of None \<Rightarrow> start_line r | Some n \<Rightarrow> Some n))"

definition start_column :: "sarif_result \<Rightarrow> int option" where
  "start_column r = (case primary_location r of None \<Rightarrow> None | Some l \<Rightarrow> startColumn l)"

definition end_column :: "sarif_result \<Rightarrow> int option" where
  "end_column r =
     (case primary_location r of
        None \<Rightarrow> None
      | Some l \<Rightarrow> (case endColumn l of None \<Rightarrow> start_column r | Some n \<Rightarrow> Some n))"

definition help_text :: "sarif_result \<Rightarrow> string" where
  "help_text r =
     (case rule_data r of
        None \<Rightarrow> []
      | Some ru \<Rightarrow> (case r_help_text ru of None \<Rightarrow> [] | Some t \<Rightarrow> t))"

definition rule_name :: "sarif_result \<Rightarrow> string" where
  "rule_name r =
     (case rule_data r of
        None \<Rightarrow> ''unknown-rule''
      | Some ru \<Rightarrow> (case r_name ru of None \<Rightarrow> ''unknown-rule'' | Some n \<Rightarrow> n))"

text \<open>
  \<^verbatim>\<open>str.lower\<close> and \<^verbatim>\<open>str.title\<close> on the ASCII letters; the other bytes are left as they are.
\<close>

definition is_upper :: "char \<Rightarrow> bool" where
  "is_upper c = (CHR ''A'' \<le> c \<and> c \<le> CHR ''Z'')"

definition is_lower :: "char \<Rightarrow> bool" where
  "is_lower c = (CHR ''a'' \<le> c \<and> c \<le> CHR ''z'')"

definition to_lower :: "char \<Rightarrow> char" where
  "to_lower c = (if is_upper c then char_of (of_char c + (32::nat)) else c)"

definition to_upper :: "char \<Rightarrow> char" where
  "to_upper c = (if is_lower c then char_of (of_char c - (32::nat)) else c)"

definition str_lower :: "string \<Rightarrow> string" where
  "str_lower s = map to_lower s"

fun title_from :: "bool \<Rightarrow> string \<Rightarrow> string" where
  "title_from previous_is_cased [] = []"
| "title_from previous_is_cased (c # cs) =
     (if is_lower c then (if previous_is_cased then c else to_upper c) # title_from True cs
      else if is_upper c then (if previous_is_cased then to_lower c else c) # title_from True cs
      else c # title_from False cs)"

definition str_title :: "string \<Rightarrow> string" where
  "str_title s = title_from False s"

text \<open>The glyphs of the comment, as UTF-8 bytes.\<close>

definition glyph_error :: string where
  "glyph_error = [CHR 0xF0, CHR 0x9F, CHR 0x9A, CHR 0xA8]"

definition glyph_warning :: string where
  "glyph_warning = [CHR 0xE2, CHR 0x9A, CHR 0xA0, CHR 0xEF, CHR 0xB8, CHR 0x8F]"

definition glyph_info :: string where
  "glyph_info = [CHR 0xE2, CHR 0x84, CHR 0xB9, CHR 0xEF, CHR 0xB8, CHR 0x8F]"

definition glyph_check :: string where
  "glyph_check = [CHR 0xE2, CHR 0x9C, CHR 0x85]"

definition glyph_folder :: string where
  "glyph_folder = [CHR 0xF0, CHR 0x9F, CHR 0x93, CHR 0x81]"

definition glyph_bulb :: string where
  "glyph_bulb = [CHR 0xF0, CHR 0x9F, CHR 0x92, CHR 0xA1]"

definition glyph_search :: string where
  "glyph_search = [CHR 0xF0, CHR 0x9F, CHR 0x94, CHR 0x8D]"

definition severity_emoji :: "sarif_result \<Rightarrow> string" where
  "severity_emoji r =
     (let l = str_lower (level r) in
      if l = ''error'' then glyph_error
      else if l = ''warning'' then glyph_warning
      else if l = ''note'' then glyph_info
      else if l = ''info'' then glyph_info
      else glyph_warning)"

text \<open>Class \<^verbatim>\<open>SarifParser\<close>.\<close>

definition rules_map_of :: "rule list \<Rightarrow> (string \<rightharpoonup> rule)" where
  "rules_map_of rs =
     fold (\<lambda>ru m. case r_name ru of
                     None \<Rightarrow> m
                   | Some n \<Rightarrow> if n \<noteq> [] then m(n \<mapsto> ru) else m)
          rs Map.empty"

definition run_results :: "run \<Rightarrow> sarif_result list" where
  "run_results rn =
     (let rules_map = rules_map_of (rules rn) in
      map (\<lambda>rd. \<lparr>result_data = rd,
                 rule_data = (case ruleName rd of
                                None \<Rightarrow> None
                              | Some n \<Rightarrow> if n \<noteq> [] then rules_map n else None)\<rparr>)
          (results rn))"

definition get_results :: "sarif_data \<Rightarrow> sarif_result list" where
  "get_results d = concat (map run_results (runs d))"

definition get_tool_info :: "sarif_data \<Rightarrow> string \<times> string" where
  "get_tool_info d =
     (case runs d of
        [] \<Rightarrow> (''Unknown Tool'', ''Unknown Version'')
      | rn # _ \<Rightarrow>
          ((case driver_name rn of None \<Rightarrow> ''Unknown Tool'' | Some n \<Rightarrow> n),
           (case driver_version rn of None \<Rightarrow> ''Unknown Version'' | Some v \<Rightarrow> v)))"

text \<open>\<^verbatim>\<open>str()\<close> of an integer, as the f-strings of the comment format line numbers and counts.\<close>

fun str_nat :: "nat \<Rightarrow> string" where
  "str_nat n =
     (if n < 10 then [char_of (48 + n)]
      else str_nat (n div 10) @ [char_of (48 + n mod 10)])"

declare str_nat.simps [simp del]

definition str_int :: "int \<Rightarrow> string" where
  "str_int i = (if i < 0 then CHR ''-'' # str_nat (nat (- i)) else str_nat (nat i))"

text \<open>\<^verbatim>\<open>"\n".join(lines)\<close>.\<close>

fun join_lines :: "string list \<Rightarrow> string" where
  "join_lines [] = []"
| "join_lines [l] = l"
| "join_lines (l # ls) = l @ [CHR 0x0A] @ join_lines ls"

section \<open>sarif_to_comment.py: the comment body\<close>

text \<open>
  \<^verbatim>\<open>_build_comment_body\<close>, in the order of the source: the header with the counts, the
  no-issues line for an empty sequence, the files section and the detailed section.
\<close>

definition summary_lines :: "string \<Rightarrow> sarif_data \<Rightarrow> sarif_result list \<Rightarrow> string list" where
  "summary_lines comment_title d rs =
     (let tool_name = fst (get_tool_info d);
          tool_version = snd (get_tool_info d);
          errors = filter (\<lambda>r. str_lower (level r) = ''error'') rs;
          warnings = filter (\<lambda>r. str_lower (level r) = ''warning'') rs;
          notes = filter (\<lambda>r. str_lower (level r) = ''note'' \<or> str_lower (level r) = ''info'') rs
      in [''## '' @ comment_title,
          [],
          ''**Tool:** '' @ tool_name @ '' '' @ tool_version,
          ''**Total Findings:** '' @ str_nat (length rs)]
         @ (if errors \<noteq> [] then [glyph_error @ '' **Errors:** '' @ str_nat (length errors)] else [])
         @ (if warnings \<noteq> [] then [glyph_warning @ '' **Warnings:** '' @ str_nat (length warnings)] else [])
         @ (if notes \<noteq> [] then [glyph_info @ '' **Notes:** '' @ str_nat (length notes)] else [])
         @ [[]])"

definition file_key :: "sarif_result \<Rightarrow> string" where
  "file_key r =
     (case file_path r of
        None \<Rightarrow> ''Unknown file''
      | Some p \<Rightarrow> if p = [] then ''Unknown file'' else p)"

fun add_to_files ::
  "string \<Rightarrow> sarif_result \<Rightarrow> (string \<times> sarif_result list) list \<Rightarrow> (string \<times> sarif_result list) list" where
  "add_to_files k r [] = [(k, [r])]"
| "add_to_files k r ((k', rs) # rest) =
     (if k' = k then (k', rs @ [r]) # rest else (k', rs) # add_to_files k r rest)"

definition files_with_issues :: "sarif_result list \<Rightarrow> (string \<times> sarif_result list) list" where
  "files_with_issues rs = fold (\<lambda>r acc. add_to_files (file_key r) r acc) rs []"

definition result_summary_lines :: "sarif_result \<Rightarrow> string list" where
  "result_summary_lines r =
     (let line_info =
            (case start_line r of
               None \<Rightarrow> ''Unknown location''
             | Some n \<Rightarrow> if n = 0 then ''Unknown location'' else ''Line '' @ str_int n)
      in [''- '' @ severity_emoji r @ '' **'' @ rule_name r @ ''** ('' @ line_info @ '')'',
          ''  '' @ message r]
         @ (if help_text r \<noteq> [] then [''  '' @ glyph_bulb @ '' '' @ help_text r] else []))"

definition file_lines :: "string \<times> sarif_result list \<Rightarrow> string list" where
  "file_lines entry =
     (let fp = fst entry; file_results = snd entry in
      [''**'' @ fp @ ''** ('' @ str_nat (length file_results) @ '' issue''
         @ (if length file_results \<noteq> 1 then ''s'' else []) @ '')'']
      @ concat (map result_summary_lines file_results)
      @ [[]])"

definition detail_lines :: "nat \<Rightarrow> sarif_result \<Rightarrow> string list" where
  "detail_lines i r =
     [''#### '' @ str_nat i @ ''. '' @ severity_emoji r @ '' '' @ rule_name r,
      [],
      ''**File:** `''
        @ (case file_path r of None \<Rightarrow> ''Unknown'' | Some p \<Rightarrow> if p = [] then ''Unknown'' else p)
        @ ''`'']
     @ (case start_line r of
          None \<Rightarrow> []
        | Some s \<Rightarrow>
            if s = 0 then []
            else (case end_line r of
                    None \<Rightarrow> [''**Line:** '' @ str_int s]
                  | Some en \<Rightarrow>
                      if en \<noteq> 0 \<and> en \<noteq> s
                      then [''**Lines:** '' @ str_int s @ ''-'' @ str_int en]
                      else [''**Line:** '' @ str_int s]))
     @ [''**Severity:** '' @ str_title (level r),
        ''**Rule Name:** `'' @ rule_name r @ ''`'',
        [],
        ''**Description:** '' @ message r]
     @ (if help_text r \<noteq> [] then [[], ''**Help:** '' @ help_text r] else [])
     @ [[], ''---'', []]"

definition build_comment_body :: "string \<Rightarrow> sarif_data \<Rightarrow> sarif_result list \<Rightarrow> string" where
  "build_comment_body comment_title d rs =
     (let lines = summary_lines comment_title d rs in
      if rs = [] then join_lines (lines @ [glyph_check @ '' No security issues found!''])
      else join_lines
             (lines
              @ [''### '' @ glyph_folder @ '' Files with Issues'', []]
              @ concat (map file_lines (sort_key fst (files_with_issues rs)))
              @ [''### '' @ glyph_search @ '' Detailed Findings'', []]
              @ concat (map (\<lambda>ir. detail_lines (fst ir) (snd ir)) (List.enumerate 1 rs))))"

section \<open>sarif_to_comment.py: posting the comment and the annotations\<close>

text \<open>
  The pull request's issue comments are the list of their bodies, in listing order. The
  host of the comment: each eager call may fail, and the listing may fail after a number of
  comments has been yielded.
\<close>

record comment_host =
  ch_get_repo :: "host_error option"
  ch_get_pull :: "host_error option"
  ch_page_failure :: "(nat \<times> host_error) option"
  ch_edit :: "host_error option"
  ch_create_issue_comment :: "host_error option"

fun paginate :: "(nat \<times> host_error) option \<Rightarrow> 'a list \<Rightarrow> 'a paginated" where
  "paginate None [] = PgEnd"
| "paginate None (x # xs) = PgItem x (paginate None xs)"
| "paginate (Some (0, e)) xs = PgFail e"
| "paginate (Some (Suc n, e)) [] = PgEnd"
| "paginate (Some (Suc n, e)) (x # xs) = PgItem x (paginate (Some (n, e)) xs)"

text \<open>
  The search loop of \<^verbatim>\<open>create_pr_comment\<close>: the position of the first comment whose body
  starts with the heading.
\<close>

fun find_existing_comment :: "string \<Rightarrow> nat \<Rightarrow> string paginated \<Rightarrow> host_error + nat option" where
  "find_existing_comment heading i PgEnd = Inr None"
| "find_existing_comment heading i (PgFail e) = Inl e"
| "find_existing_comment heading i (PgItem body rest) =
     (if prefix heading body then Inr (Some i)
      else find_existing_comment heading (Suc i) rest)"

text \<open>
  \<^verbatim>\<open>create_pr_comment\<close>: it returns the comments of the pull request afterwards. Both
  handlers of its \<^verbatim>\<open>try\<close> log and raise again.
\<close>

definition create_pr_comment ::
  "env \<Rightarrow> comment_host \<Rightarrow> string \<Rightarrow> sarif_data \<Rightarrow> bool \<Rightarrow> string list \<Rightarrow> (exn + unit) \<times> string list" where
  "create_pr_comment e ch comment_title d dry_run comments =
     (let rs = get_results d in
      if rs = [] then (Inr (), comments)
      else
        (let comment_body = build_comment_body comment_title d rs in
         if dry_run then (Inr (), comments)
         else
           (case get_github_client e of
              Inl err \<Rightarrow> (Inl err, comments)
            | Inr github_client \<Rightarrow>
                (case ch_get_repo ch of
                   Some err \<Rightarrow> (Inl (HostFailure err), comments)
                 | None \<Rightarrow>
                     (case ch_get_pull ch of
                        Some err \<Rightarrow> (Inl (HostFailure err), comments)
                      | None \<Rightarrow>
                          (case find_existing_comment (''## '' @ comment_title) 0
                                  (paginate (ch_page_failure ch) comments) of
                             Inl err \<Rightarrow> (Inl (HostFailure err), comments)
                           | Inr (Some i) \<Rightarrow>
                               (case ch_edit ch of
                                  Some err \<Rightarrow> (Inl (HostFailure err), comments)
                                | None \<Rightarrow> (Inr (), comments[i := comment_body]))
                           | Inr None \<Rightarrow>
                               (case ch_create_issue_comment ch of
                                  Some err \<Rightarrow> (Inl (HostFailure err), comments)
                                | None \<Rightarrow> (Inr (), comments @ [comment_body]))))))))"

definition map_level_to_annotation :: "string \<Rightarrow> string" where
  "map_level_to_annotation l =
     (let k = str_lower l in
      if k = ''error'' then ''error''
      else if k = ''warning'' then ''warning''
      else if k = ''note'' then ''notice''
      else if k = ''info'' then ''notice''
      else ''notice'')"

text \<open>
  \<^verbatim>\<open>create_annotations\<close>. The five values of one annotation line are kept as a record;
  \<open>annotation_line\<close> is the f-string that prints them.
\<close>

record annotation =
  a_level :: string
  a_file :: string
  a_line :: int
  a_col :: int
  a_message :: string

definition annotation_line :: "annotation \<Rightarrow> string" where
  "annotation_line a =
     ''::'' @ a_level a @ '' file='' @ a_file a @ '',line='' @ str_int (a_line a)
     @ '',col='' @ str_int (a_col a) @ ''::'' @ a_message a"

definition annotation_of :: "bool \<Rightarrow> sarif_result \<Rightarrow> annotation option" where
  "annotation_of dry_run r =
     (case file_path r of
        None \<Rightarrow> None
      | Some fp \<Rightarrow>
          if fp = [] then None
          else (case start_line r of
                  None \<Rightarrow> None
                | Some ln \<Rightarrow>
                    if ln = 0 then None
                    else if dry_run then None
                    else Some \<lparr>a_level = map_level_to_annotation (level r),
                               a_file = fp,
                               a_line = ln,
                               a_col = (case start_column r of
                                          None \<Rightarrow> 1
                                        | Some c \<Rightarrow> if c = 0 then 1 else c),
                               a_message = rule_name r @ '': '' @ message r\<rparr>))"

fun annotation_loop :: "bool \<Rightarrow> sarif_result list \<Rightarrow> annotation list" where
  "annotation_loop dry_run [] = []"
| "annotation_loop dry_run (r # rs) =
     (case annotation_of dry_run r of
        None \<Rightarrow> annotation_loop dry_run rs
      | Some a \<Rightarrow> a # annotation_loop dry_run rs)"

definition create_annotations :: "sarif_data \<Rightarrow> bool \<Rightarrow> string list" where
  "create_annotations d dry_run =
     (let rs = get_results d in
      if rs = [] then [] else map annotation_line (annotation_loop dry_run rs))"

text \<open>
  \<^verbatim>\<open>process_sarif_file\<close>: the file is missing, cannot be loaded, or holds a document. It
  returns the comments of the pull request and the annotation lines printed.
\<close>

datatype sarif_file = NoSarifFile | SarifUnreadable | SarifData sarif_data

definition process_sarif_file ::
  "env \<Rightarrow> comment_host \<Rightarrow> sarif_file \<Rightarrow> string \<Rightarrow> bool \<Rightarrow> string list
     \<Rightarrow> (exn + unit) \<times> string list \<times> string list" where
  "process_sarif_file e ch f comment_title dry_run comments =
     (case f of
        NoSarifFile \<Rightarrow> (Inr (), comments, [])
      | SarifUnreadable \<Rightarrow> (Inl JSONDecodeError, comments, [])
      | SarifData d \<Rightarrow>
          (case create_pr_comment e ch comment_title d dry_run comments of
             (Inl err, comments') \<Rightarrow> (Inl err, comments', [])
           | (Inr _, comments') \<Rightarrow> (Inr (), comments', create_annotations d dry_run)))"

section \<open>fraim.py: the invocation\<close>

text \<open>
  What an invocation finds outside the environment variables: the parsed
  \<^verbatim>\<open>WORKFLOW_ARGS\<close> (\<open>None\<close> when \<^verbatim>\<open>json.loads\<close> rejects the text), the event file, what the
  scanner does and the results file it leaves. The scanner is a black box: its command
  line is not modelled. \<open>AssemblyRaised\<close> stands for a \<^verbatim>\<open>TypeError\<close> while the command line is
  built and printed (a workflow argument that is not a string), before the scanner starts;
  \<open>SpawnRaised\<close> for an exception of \<^verbatim>\<open>subprocess.run\<close>; \<open>Exited\<close> carries the exit status and
  the captured output.
\<close>

datatype event_file = NoEventFile | EventUnreadable | EventData pyval

datatype scan_result = AssemblyRaised | SpawnRaised string | Exited int string

record world =
  WORKFLOW_ARGS :: "pyval option"
  github_event :: event_file
  scan :: scan_result
  sarif_output :: sarif_file

definition parse_workflow_args :: "world \<Rightarrow> exn + pyval" where
  "parse_workflow_args w = (case WORKFLOW_ARGS w of None \<Rightarrow> Inl JSONDecodeError | Some d \<Rightarrow> Inr d)"

text \<open>
  \<^verbatim>\<open>get_github_context\<close> assigns \<^verbatim>\<open>pr_number\<close> only when the event file is read without an
  exception; otherwise its \<^verbatim>\<open>return\<close> raises \<^verbatim>\<open>UnboundLocalError\<close>.
\<close>

definition event_pr_number :: "pyval \<Rightarrow> exn + pyval" where
  "event_pr_number event_data =
     (case event_data of
        PDict d \<Rightarrow> dict_get (case map_of d ''pull_request'' of None \<Rightarrow> PDict [] | Some v \<Rightarrow> v) ''number''
      | _ \<Rightarrow> Inl AttributeError)"

definition get_github_context :: "env \<Rightarrow> world \<Rightarrow> exn + (string \<times> pyval)" where
  "get_github_context e w =
     (case github_event w of
        NoEventFile \<Rightarrow> Inl UnboundLocalError
      | EventUnreadable \<Rightarrow> Inl UnboundLocalError
      | EventData event_data \<Rightarrow>
          (case event_pr_number event_data of
             Inl _ \<Rightarrow> Inl UnboundLocalError
           | Inr pr_number \<Rightarrow> Inr (GITHUB_REPOSITORY e, pr_number)))"

text \<open>Running the scanner: a non-zero exit status is raised as an exception.\<close>

definition failure_text :: "string \<Rightarrow> int \<Rightarrow> fstring" where
  "failure_text workflow fraim_exit_code =
     [Lit (''Fraim workflow '' @ [CHR 0x27]), Lit workflow,
      Lit ([CHR 0x27] @ '' failed with exit code ''), Fmt (PInt fraim_exit_code)]"

definition run_scan :: "world \<Rightarrow> string \<Rightarrow> string res" where
  "run_scan w workflow =
     (case scan w of
        AssemblyRaised \<Rightarrow> (Inl TypeError, [])
      | SpawnRaised text \<Rightarrow>
          (Inl (SpawnError text),
           [WorkflowCommand [Lit ''::error::Error running Fraim command: '', Lit text]])
      | Exited fraim_exit_code output_content \<Rightarrow>
          if fraim_exit_code \<noteq> 0 then
            (Inl (ScanFailure workflow fraim_exit_code),
             [ScanExecuted,
              WorkflowCommand ([Lit ''::error::''] @ failure_text workflow fraim_exit_code),
              WorkflowCommand ([Lit ''::error::Error running Fraim command: '']
                               @ failure_text workflow fraim_exit_code)])
          else (Inr output_content, [ScanExecuted]))"

text \<open>The end of \<^verbatim>\<open>main\<close>: counting the results of the results file and the two error lines.\<close>

definition results_count_of :: "sarif_file \<Rightarrow> nat" where
  "results_count_of f =
     (case f of
        NoSarifFile \<Rightarrow> 0
      | SarifUnreadable \<Rightarrow> 0
      | SarifData d \<Rightarrow> sum_list (map (\<lambda>rn. length (results rn)) (runs d)))"

definition findings_detected :: "nat \<Rightarrow> bool \<Rightarrow> bool" where
  "findings_detected results_count security_findings_found =
     (results_count > 0 \<or> security_findings_found)"

definition report_findings :: "world \<Rightarrow> bool \<Rightarrow> unit res" where
  "report_findings w security_findings_found =
     (let results_count = results_count_of (sarif_output w) in
      if findings_detected results_count security_findings_found then
        emit ((if results_count > 0
               then [WorkflowCommand
                       [Lit ''::error::Security findings detected! Found '',
                        Fmt (PInt (int results_count)),
                        Lit '' security issue(s) in SARIF results.'']]
               else [])
              @ (if security_findings_found
                 then [WorkflowCommand
                         [Lit ''::error::Security findings detected! The scan identified security risks that require review.'']]
                 else []))
      else emit [])"

text \<open>
  The positional values \<^verbatim>\<open>main\<close> hands to \<^verbatim>\<open>handle_pull_request_block\<close>:
  \<^verbatim>\<open>(args, workflow, should_block_pr, security_findings_found, github_repository)\<close>.
\<close>

definition block_call_arguments :: "pyval \<Rightarrow> string \<Rightarrow> pyval \<Rightarrow> bool \<Rightarrow> string \<Rightarrow> pyval list" where
  "block_call_arguments args workflow should_block_pr security_findings_found github_repository =
     [args, PStr workflow, should_block_pr, PBool security_findings_found, PStr github_repository]"

definition main :: "env \<Rightarrow> world \<Rightarrow> host \<Rightarrow> unit res" where
  "main e w h =
     bind_res (pure_res (parse_workflow_args w)) (\<lambda>args.
     bind_res (pure_res (get_github_context e w)) (\<lambda>ctx.
     let github_repository = fst ctx; pr_number = snd ctx in
     bind_res (pure_res (dict_get args ''should-block-pull-request'')) (\<lambda>should_block_pr.
     let workflow = INPUT_WORKFLOW e in
     if workflow = [] then
       (Inl (SystemExit 1), [WorkflowCommand [Lit ''::error::No workflow specified'']])
     else
     bind_res (handle_pull_request_review e h
                 [args, PStr workflow, should_block_pr, PStr github_repository, pr_number]) (\<lambda>_.
     bind_res (add_global_args e h [PStr workflow, args, PStr github_repository]) (\<lambda>global_args.
     bind_res (run_scan w workflow) (\<lambda>output_content.
     let security_findings_found = check_output_for_risk_findings output_content in
     bind_res (handle_pull_request_block e h
                 (block_call_arguments args workflow should_block_pr security_findings_found
                    github_repository)) (\<lambda>_.
     report_findings w security_findings_found)))))))"

text \<open>
  \<^verbatim>\<open>main\<close> up to the call of \<^verbatim>\<open>handle_pull_request_block\<close> (fraim.py:217), the
  arguments of the call evaluated and the function not yet entered: the value of
  \<^verbatim>\<open>security_findings_found\<close> and the positional values of the call.
\<close>

definition main_to_gate_call :: "env \<Rightarrow> world \<Rightarrow> host \<Rightarrow> (bool \<times> pyval list) res" where
  "main_to_gate_call e w h =
     bind_res (pure_res (parse_workflow_args w)) (\<lambda>args.
     bind_res (pure_res (get_github_context e w)) (\<lambda>ctx.
     let github_repository = fst ctx; pr_number = snd ctx in
     bind_res (pure_res (dict_get args ''should-block-pull-request'')) (\<lambda>should_block_pr.
     let workflow = INPUT_WORKFLOW e in
     if workflow = [] then
       (Inl (SystemExit 1), [WorkflowCommand [Lit ''::error::No workflow specified'']])
     else
     bind_res (handle_pull_request_review e h
                 [args, PStr workflow, should_block_pr, PStr github_repository, pr_number]) (\<lambda>_.
     bind_res (add_global_args e h [PStr workflow, args, PStr github_repository]) (\<lambda>global_args.
     bind_res (run_scan w workflow) (\<lambda>output_content.
     let security_findings_found = check_output_for_risk_findings output_content in
     pure_res (Inr (security_findings_found,
                    block_call_arguments args workflow should_block_pr security_findings_found
                      github_repository))))))))"

text \<open>The exit status of the process for an outcome of \<^verbatim>\<open>main\<close>.\<close>

fun exit_status :: "exn + unit \<Rightarrow> int" where
  "exit_status (Inr _) = 0"
| "exit_status (Inl (SystemExit n)) = n"
| "exit_status (Inl _) = 1"

section \<open>Inputs for the examples\<close>

text \<open>
  A pull-request invocation of the \<^verbatim>\<open>risk_flagger\<close> workflow with blocking enabled, a host on
  which every call succeeds and no team carries the approver's name, and three scans: one
  whose output carries the marker, one without marker and with an empty results document,
  and one without marker whose results document holds a finding.
\<close>

definition pr_env :: env where
  "pr_env =
     \<lparr>GITHUB_EVENT_NAME = ''pull_request'', GITHUB_BASE_SHA = ''b45e'', GITHUB_SHA = ''4ead'',
      GITHUB_REPOSITORY = ''octo/repo'', GH_TOKEN = ''t0ken'', GITHUB_TOKEN = [],
      INPUT_WORKFLOW = ''risk_flagger'', INPUT_MODEL = []\<rparr>"

definition pr_reviews :: "review list" where
  "pr_reviews =
     [\<lparr>review_state = ''COMMENTED'', review_login = ''alice''\<rparr>,
      \<lparr>review_state = ''APPROVED'', review_login = ''alice''\<rparr>]"

definition open_host :: host where
  "open_host =
     \<lparr>h_get_repo = (\<lambda>_. None), h_get_pull = (\<lambda>_ _. None),
      h_get_reviews = (\<lambda>_ _. paginate None pr_reviews),
      h_get_issue_comments = (\<lambda>_ _. PgEnd),
      h_get_organization = (\<lambda>_. None),
      h_get_team_by_slug = (\<lambda>_ _. Some (GithubException 404)),
      h_get_members = (\<lambda>_ _. PgEnd), h_get_commit = (\<lambda>_ _. None),
      h_create_status = (\<lambda>_ _ _ _ _. None)\<rparr>"

definition gate_args :: pyval where
  "gate_args =
     PDict [(''should-block-pull-request'', PBool True), (''approver'', PStr ''alice'')]"

definition pr_event :: event_file where
  "pr_event = EventData (PDict [(''pull_request'', PDict [(''number'', PInt 7)])])"

definition flagged_output :: string where
  "flagged_output =
     ''The following security risks have been identified and require review: secrets''"

definition flagged_world :: world where
  "flagged_world =
     \<lparr>WORKFLOW_ARGS = Some gate_args, github_event = pr_event,
      scan = Exited 0 flagged_output, sarif_output = NoSarifFile\<rparr>"

definition quiet_world :: world where
  "quiet_world =
     \<lparr>WORKFLOW_ARGS = Some gate_args, github_event = pr_event,
      scan = Exited 0 ''scan finished'', sarif_output = SarifData \<lparr>runs = []\<rparr>\<rparr>"

definition one_finding_doc :: sarif_data where
  "one_finding_doc =
     \<lparr>runs = [\<lparr>driver_name = Some ''fraim'', driver_version = Some ''1.0'',
               rules = [\<lparr>r_name = Some ''sql-injection'',
                         r_help_text = Some ''Use parameterized queries''\<rparr>],
               results = [\<lparr>ruleName = Some ''sql-injection'', level_field = Some ''error'',
                           message_text = Some ''query built from input'',
                           locations = [\<lparr>uri = Some ''app.py'', startLine = Some 10,
                                          endLine = Some 12, startColumn = None,
                                          endColumn = None\<rparr>]\<rparr>]\<rparr>]\<rparr>"

definition finding_world :: world where
  "finding_world =
     \<lparr>WORKFLOW_ARGS = Some gate_args, github_event = pr_event,
      scan = Exited 0 ''scan finished'', sarif_output = SarifData one_finding_doc\<rparr>"

text \<open>The same environment without the head revision, and without the base revision.\<close>

definition no_head_env :: env where
  "no_head_env = pr_env\<lparr>GITHUB_SHA := []\<rparr>"

definition no_base_env :: env where
  "no_base_env = pr_env\<lparr>GITHUB_BASE_SHA := []\<rparr>"

text \<open>
  A host on which every call for the comment succeeds, and results documents: one run without
  results, results with a zero start line and a zero start column, and two results that
  differ in their level only.
\<close>

definition open_comment_host :: comment_host where
  "open_comment_host =
     \<lparr>ch_get_repo = None, ch_get_pull = None, ch_page_failure = None, ch_edit = None,
      ch_create_issue_comment = None\<rparr>"

definition empty_run_doc :: sarif_data where
  "empty_run_doc =
     \<lparr>runs = [\<lparr>driver_name = Some ''fraim'', driver_version = Some ''1.0'', rules = [],
               results = []\<rparr>]\<rparr>"

definition zero_line_result :: sarif_result where
  "zero_line_result =
     \<lparr>result_data = \<lparr>ruleName = None, level_field = None, message_text = None,
                      locations = [\<lparr>uri = Some ''a.py'', startLine = Some 0, endLine = None,
                                     startColumn = Some 4, endColumn = None\<rparr>]\<rparr>,
      rule_data = None\<rparr>"

definition zero_column_result :: sarif_result where
  "zero_column_result =
     \<lparr>result_data = \<lparr>ruleName = None, level_field = None, message_text = None,
                      locations = [\<lparr>uri = Some ''b.py'', startLine = Some 3, endLine = None,
                                     startColumn = Some 0, endColumn = None\<rparr>]\<rparr>,
      rule_data = None\<rparr>"

definition zero_fields_doc :: sarif_data where
  "zero_fields_doc =
     \<lparr>runs = [\<lparr>driver_name = None, driver_version = None, rules = [],
               results = [result_data zero_line_result, result_data zero_column_result]\<rparr>]\<rparr>"



text \<open>The state of a status among the effects.\<close>

fun status_state :: "effect \<Rightarrow> string option" where
  "status_state (StatusCreated st de cx repo sha) = Some st"
| "status_state _ = None"

section \<open>Sequencing and effects\<close>

lemma bind_res_Inl [simp]: "bind_res (Inl e, t) f = (Inl e, t)"
  by (simp add: bind_res_def)

lemma bind_res_Inr: "bind_res (Inr x, t) f = (fst (f x), t @ snd (f x))"
  by (simp add: bind_res_def split: prod.splits)

lemma bind_pure_Inr [simp]: "bind_res (pure_res (Inr x)) f = f x"
  by (simp add: bind_res_def pure_res_def split: prod.splits)

lemma bind_pure_Inl [simp]: "bind_res (pure_res (Inl e)) f = (Inl e, [])"
  by (simp add: bind_res_def pure_res_def)

lemma bind_res_fst_Inl: "fst m = Inl x \<Longrightarrow> bind_res m f = (Inl x, snd m)"
  by (cases m) (simp add: bind_res_def)

lemma create_status_check_effects:
  "x \<in> set (create_status_check e h st de repo cx) \<Longrightarrow>
     x = StatusCreated st de cx repo (GITHUB_SHA e)"
  by (auto simp: create_status_check_def Let_def split: sum.splits option.splits if_splits)

lemma review_no_scan:
  "ScanExecuted \<notin> set (snd (handle_pull_request_review e h [a, wk, s, r, p]))"
  by (auto simp: bind_res_def pure_res_def emit_def Let_def
           dest!: create_status_check_effects
           split: sum.splits prod.splits if_splits)

lemma review_returns:
  "fst (handle_pull_request_review e h [a, wk, s, r, p]) = Inr u \<Longrightarrow>
     GITHUB_EVENT_NAME e \<noteq> ''pull_request_review'' \<and>
     snd (handle_pull_request_review e h [a, wk, s, r, p]) = []"
  by (auto simp: bind_res_def pure_res_def emit_def Let_def
           split: sum.splits prod.splits if_splits)

lemma global_args_no_scan:
  "ScanExecuted \<notin> set (snd (add_global_args e h [wk, a, r]))"
  by (cases "dict_get a ''confidence''"; cases "dict_get a ''temperature''")
     (auto simp: Let_def dest!: create_status_check_effects split: if_splits)

lemma global_args_returns:
  "fst (add_global_args e h [wk, a, r]) = Inr g \<Longrightarrow> snd (add_global_args e h [wk, a, r]) = []"
  by (cases "dict_get a ''confidence''"; cases "dict_get a ''temperature''")
     (auto simp: Let_def split: if_splits)

section \<open>The call of the gate from main\<close>

lemma block_call_raises:
  "handle_pull_request_block e h (block_call_arguments a wk s f r) = (Inl TypeError, [])"
  by (simp add: block_call_arguments_def pure_res_def)

lemma main_unfold:
  "main e w h =
     (case parse_workflow_args w of
        Inl x \<Rightarrow> (Inl x, [])
      | Inr args \<Rightarrow>
          (case get_github_context e w of
             Inl x \<Rightarrow> (Inl x, [])
           | Inr ctx \<Rightarrow>
               (case dict_get args ''should-block-pull-request'' of
                  Inl x \<Rightarrow> (Inl x, [])
                | Inr sb \<Rightarrow>
                    if INPUT_WORKFLOW e = [] then
                      (Inl (SystemExit 1), [WorkflowCommand [Lit ''::error::No workflow specified'']])
                    else
                      bind_res (handle_pull_request_review e h
                                  [args, PStr (INPUT_WORKFLOW e), sb, PStr (fst ctx), snd ctx])
                        (\<lambda>_. bind_res (add_global_args e h [PStr (INPUT_WORKFLOW e), args, PStr (fst ctx)])
                          (\<lambda>_. bind_res (run_scan w (INPUT_WORKFLOW e))
                            (\<lambda>out. (Inl TypeError, [])))))))"
  by (simp add: main_def Let_def block_call_raises
           del: handle_pull_request_review.simps add_global_args.simps
           split: sum.splits)

text \<open>
  Claim C2. \<^verbatim>\<open>main\<close> calls \<^verbatim>\<open>handle_pull_request_block\<close> with five positional values, and
  the function has six parameters without defaults: the call raises \<^verbatim>\<open>TypeError\<close> and has
  no effect, whatever the five values are, so no branch of the gate is ever run from
  \<^verbatim>\<open>main\<close>. On a \<^verbatim>\<open>pull_request\<close> event on which the scanner has run and exited with status
  0, the whole invocation therefore ends in \<^verbatim>\<open>TypeError\<close>, and the run of the scanner is
  its only effect: no status is created.
\<close>

theorem main_block_call_raises_TypeError:
  "handle_pull_request_block e h (block_call_arguments a wk s f r) = (Inl TypeError, []) \<and>
   (GITHUB_EVENT_NAME e = ''pull_request'' \<longrightarrow> scan w = Exited 0 out \<longrightarrow>
    ScanExecuted \<in> set (snd (main e w h)) \<longrightarrow>
      main e w h = (Inl TypeError, [ScanExecuted]))"
proof (intro conjI impI)
  show "handle_pull_request_block e h (block_call_arguments a wk s f r) = (Inl TypeError, [])"
    by (rule block_call_raises)
next
  assume sc: "scan w = Exited 0 out" and ran: "ScanExecuted \<in> set (snd (main e w h))"
  note [simp del] = handle_pull_request_review.simps add_global_args.simps
  from ran obtain args where args: "parse_workflow_args w = Inr args"
    by (cases "parse_workflow_args w") (auto simp: main_unfold)
  from ran args obtain ctx where ctx: "get_github_context e w = Inr ctx"
    by (cases "get_github_context e w") (auto simp: main_unfold)
  from ran args ctx obtain sb where sb: "dict_get args ''should-block-pull-request'' = Inr sb"
    by (cases "dict_get args ''should-block-pull-request''") (auto simp: main_unfold)
  from ran args ctx sb have wk: "INPUT_WORKFLOW e \<noteq> []"
    by (auto simp: main_unfold split: if_splits)
  let ?R = "handle_pull_request_review e h [args, PStr (INPUT_WORKFLOW e), sb, PStr (fst ctx), snd ctx]"
  let ?G = "add_global_args e h [PStr (INPUT_WORKFLOW e), args, PStr (fst ctx)]"
  have m: "main e w h =
             bind_res ?R (\<lambda>_. bind_res ?G (\<lambda>_. bind_res (run_scan w (INPUT_WORKFLOW e))
               (\<lambda>out. (Inl TypeError, []))))"
    using args ctx sb wk by (simp add: main_unfold)
  have R: "?R = (Inr (), [])"
  proof (cases "fst ?R")
    case (Inl x)
    then have "main e w h = (Inl x, snd ?R)"
      by (simp only: m bind_res_fst_Inl)
    with ran review_no_scan show ?thesis by simp
  next
    case (Inr u)
    from review_returns [OF this] Inr show ?thesis
      by (simp add: prod_eq_iff)
  qed
  have G: "\<exists>g. ?G = (Inr g, [])"
  proof (cases "fst ?G")
    case (Inl x)
    then have "main e w h = (Inl x, snd ?G)"
      by (simp add: m R bind_res_Inr bind_res_fst_Inl)
    with ran global_args_no_scan show ?thesis by simp
  next
    case (Inr g)
    from global_args_returns [OF this] Inr show ?thesis
      by (simp add: prod_eq_iff)
  qed
  then obtain g where G': "?G = (Inr g, [])" ..
  have S: "run_scan w (INPUT_WORKFLOW e) = (Inr out, [ScanExecuted])"
    using sc by (simp add: run_scan_def)
  show "main e w h = (Inl TypeError, [ScanExecuted])"
    by (simp add: m R G' S bind_res_def)
qed

theorem main_block_call_raises_TypeError_witness:
  "GITHUB_EVENT_NAME pr_env = ''pull_request'' \<and> scan flagged_world = Exited 0 flagged_output \<and>
   ScanExecuted \<in> set (snd (main pr_env flagged_world open_host)) \<and>
   main pr_env flagged_world open_host = (Inl TypeError, [ScanExecuted])"
proof -
  have 1: "GITHUB_EVENT_NAME pr_env = ''pull_request''" by (simp add: pr_env_def)
  have 2: "scan flagged_world = Exited 0 flagged_output" by (simp add: flagged_world_def)
  have 3: "ScanExecuted \<in> set (snd (main pr_env flagged_world open_host))" by code_simp
  from main_block_call_raises_TypeError
         [of pr_env open_host PNone "[]" PNone False "[]" flagged_world flagged_output] 1 2 3
  show ?thesis by blast
qed

text \<open>
  Claim C3 (Scenario B). A \<^verbatim>\<open>pull_request\<close> event, blocking enabled for \<^verbatim>\<open>risk_flagger\<close>, a scan
  that exits with status 0, no marker in its output and an empty results document: the
  invocation does not pass the gate but ends in \<^verbatim>\<open>TypeError\<close> with exit status 1, after the
  scan and without a status. Called with the sixth value its signature asks for, the gate
  returns without a status, as the scenario expects.
\<close>

theorem scenario_B_invocation_raises:
  "main pr_env quiet_world open_host = (Inl TypeError, [ScanExecuted]) \<and>
   exit_status (fst (main pr_env quiet_world open_host)) = 1 \<and>
   handle_pull_request_block pr_env open_host
     (block_call_arguments gate_args ''risk_flagger'' (PBool True)
        (check_output_for_risk_findings ''scan finished'') ''octo/repo'' @ [PInt 7]) = (Inr (), [])"
  by code_simp

section \<open>Approvals\<close>

text \<open>
  Claim C7. With an approver, a repository and a pull-request number given, and neither
  \<^verbatim>\<open>GH_TOKEN\<close> nor \<^verbatim>\<open>GITHUB_TOKEN\<close> set, \<^verbatim>\<open>check_approver_approval\<close> raises \<^verbatim>\<open>ValueError\<close>
  on every host: \<^verbatim>\<open>get_github_client\<close> is called before the \<^verbatim>\<open>try\<close>.
\<close>

theorem approval_check_raises_without_token:
  "check_approver_approval
     \<lparr>GITHUB_EVENT_NAME = ''pull_request'', GITHUB_BASE_SHA = ''b45e'', GITHUB_SHA = ''4ead'',
      GITHUB_REPOSITORY = ''octo/repo'', GH_TOKEN = [], GITHUB_TOKEN = [],
      INPUT_WORKFLOW = ''risk_flagger'', INPUT_MODEL = []\<rparr>
     h (PStr ''alice'') (PStr ''octo/repo'') (PInt 7) = Inl ValueError"
  by (simp add: check_approver_approval_def get_github_client_def)

text \<open>
  What does hold: a missing input gives false at once, and with a token every failure of
  the host gives false.
\<close>

lemma approval_check_missing_input:
  "\<not> truthy approver \<or> \<not> truthy github_repository \<or> \<not> truthy pr_number \<Longrightarrow>
     check_approver_approval e h approver github_repository pr_number = Inr False"
  by (auto simp: check_approver_approval_def)

lemma approval_check_total_with_token:
  "get_github_client e = Inr token \<Longrightarrow>
     \<exists>b. check_approver_approval e h approver github_repository pr_number = Inr b"
  by (cases "approval_try e h approver github_repository pr_number")
     (auto simp: check_approver_approval_def)

lemma approval_check_host_failure:
  "get_github_client e = Inr token \<Longrightarrow>
   approval_try e h approver github_repository pr_number = Inl err \<Longrightarrow>
     check_approver_approval e h approver github_repository pr_number = Inr False"
  by (simp add: check_approver_approval_def)

lemma user_review_scan_collect:
  "collect p = Inr rs \<Longrightarrow>
     user_review_scan (PStr a) p =
       Inr (\<exists>r\<in>set rs. review_state r = ''APPROVED'' \<and> review_login r = a)"
  by (induction p arbitrary: rs) (auto split: sum.splits)

text \<open>
  Claim C6. For an approver string that does not name a team, with the three inputs present
  and every host query answered (the listing of the reviews yields \<open>rs\<close>),
  \<^verbatim>\<open>check_approver_approval\<close> returns true if and only if some review in \<open>rs\<close> has state
  \<^verbatim>\<open>APPROVED\<close> and a login equal to the approver string, character by character.
\<close>

theorem individual_approval_iff:
  assumes "a \<noteq> []" and "truthy github_repository" and "truthy pr_number"
    and "get_github_client e = Inr token"
    and "h_get_repo h github_repository = None"
    and "h_get_pull h github_repository pr_number = None"
    and "\<not> is_team_approver e h (PStr a) github_repository"
    and "collect (h_get_reviews h github_repository pr_number) = Inr rs"
  shows "check_approver_approval e h (PStr a) github_repository pr_number =
           Inr (\<exists>r\<in>set rs. review_state r = ''APPROVED'' \<and> review_login r = a)"
  using assms
  by (simp add: check_approver_approval_def approval_try_def user_review_scan_collect)

theorem individual_approval_iff_witness:
  "get_github_client pr_env = Inr ''t0ken'' \<and>
   \<not> is_team_approver pr_env open_host (PStr ''alice'') (PStr ''octo/repo'') \<and>
   \<not> is_team_approver pr_env open_host (PStr ''Alice'') (PStr ''octo/repo'') \<and>
   collect (h_get_reviews open_host (PStr ''octo/repo'') (PInt 7)) = Inr pr_reviews \<and>
   check_approver_approval pr_env open_host (PStr ''alice'') (PStr ''octo/repo'') (PInt 7) = Inr True \<and>
   check_approver_approval pr_env open_host (PStr ''Alice'') (PStr ''octo/repo'') (PInt 7) = Inr False"
proof -
  have tok: "get_github_client pr_env = Inr ''t0ken''" by code_simp
  have ind1: "\<not> is_team_approver pr_env open_host (PStr ''alice'') (PStr ''octo/repo'')"
    by code_simp
  have ind2: "\<not> is_team_approver pr_env open_host (PStr ''Alice'') (PStr ''octo/repo'')"
    by code_simp
  have revs: "collect (h_get_reviews open_host (PStr ''octo/repo'') (PInt 7)) = Inr pr_reviews"
    by code_simp
  have repo: "h_get_repo open_host (PStr ''octo/repo'') = None"
    and pull: "h_get_pull open_host (PStr ''octo/repo'') (PInt 7) = None"
    by (simp_all add: open_host_def)
  have yes: "\<exists>r\<in>set pr_reviews. review_state r = ''APPROVED'' \<and> review_login r = ''alice''"
    by (simp add: pr_reviews_def)
  have no: "\<not> (\<exists>r\<in>set pr_reviews. review_state r = ''APPROVED'' \<and> review_login r = ''Alice'')"
    by (simp add: pr_reviews_def)
  have "check_approver_approval pr_env open_host (PStr ''alice'') (PStr ''octo/repo'') (PInt 7) = Inr True"
    using individual_approval_iff [OF _ _ _ tok repo pull ind1 revs] yes by simp
  moreover
  have "check_approver_approval pr_env open_host (PStr ''Alice'') (PStr ''octo/repo'') (PInt 7) = Inr False"
    using individual_approval_iff [OF _ _ _ tok repo pull ind2 revs] no by simp
  ultimately show ?thesis using tok ind1 ind2 revs by simp
qed

section \<open>The findings flag of the gate\<close>

lemma bind_res_assoc: "bind_res (bind_res m f) g = bind_res m (\<lambda>x. bind_res (f x) g)"
  by (cases m) (auto simp: bind_res_def split: sum.splits prod.splits)

lemma bind_res_if: "bind_res (if c then a else b) f = (if c then bind_res a f else bind_res b f)"
  by simp

lemma main_from_gate_call:
  "main e w h =
     bind_res (main_to_gate_call e w h)
       (\<lambda>c. bind_res (handle_pull_request_block e h (snd c)) (\<lambda>_. report_findings w (fst c)))"
  by (simp add: main_def main_to_gate_call_def Let_def bind_res_assoc bind_res_if
           del: handle_pull_request_review.simps add_global_args.simps
                handle_pull_request_block.simps
           cong: if_cong)

lemma run_scan_returns:
  "run_scan w wk = (Inr out, t) \<Longrightarrow> scan w = Exited 0 out \<and> t = [ScanExecuted]"
  by (auto simp: run_scan_def split: scan_result.splits if_splits)

lemma bind_res_returns:
  "bind_res m f = (Inr y, t) \<Longrightarrow>
     \<exists>x t1 t2. m = (Inr x, t1) \<and> f x = (Inr y, t2) \<and> t = t1 @ t2"
  by (cases m) (auto simp: bind_res_def split: sum.splits prod.splits)

lemma to_gate_call_sarif:
  "main_to_gate_call e (w\<lparr>sarif_output := s\<rparr>) h = main_to_gate_call e w h"
proof -
  have 1: "parse_workflow_args (w\<lparr>sarif_output := s\<rparr>) = parse_workflow_args w"
    by (simp add: parse_workflow_args_def)
  have 2: "get_github_context e (w\<lparr>sarif_output := s\<rparr>) = get_github_context e w"
    by (simp add: get_github_context_def)
  have 3: "run_scan (w\<lparr>sarif_output := s\<rparr>) wk = run_scan w wk" for wk
    by (simp add: run_scan_def)
  show ?thesis
    by (simp only: main_to_gate_call_def 1 2 3)
qed

text \<open>
  Claim C1, as stated, fails. A \<^verbatim>\<open>pull_request\<close> invocation with blocking enabled whose scan
  exits with status 0, without the marker in its output, and leaves a results document with
  one finding: the findings value that \<^verbatim>\<open>main\<close> supplies in the call of the gate is false,
  although the disjunction of the marker test and a non-empty results document is true, and
  the invocation creates no status.
\<close>

theorem gate_call_ignores_results_document:
  "main_to_gate_call pr_env finding_world open_host =
     (Inr (False, [gate_args, PStr ''risk_flagger'', PBool True, PBool False, PStr ''octo/repo'']),
      [ScanExecuted]) \<and>
   results_count_of (sarif_output finding_world) = 1 \<and>
   findings_detected (results_count_of (sarif_output finding_world)) False \<and>
   main pr_env finding_world open_host = (Inl TypeError, [ScanExecuted])"
  by code_simp

text \<open>
  Claim C1, amended. \<^verbatim>\<open>main\<close> is its part up to the call of the gate, followed by the call
  and the report. That part never looks at the results document. Whenever an invocation gets
  as far as the call, the scanner has exited with status 0, and the findings value among the
  five values of the call is the marker test on the captured output and nothing else: it is
  true exactly when the marker string occurs in the output.
\<close>

theorem gate_call_flag_is_marker:
  "main e w h =
     bind_res (main_to_gate_call e w h)
       (\<lambda>c. bind_res (handle_pull_request_block e h (snd c)) (\<lambda>_. report_findings w (fst c))) \<and>
   main_to_gate_call e (w\<lparr>sarif_output := s\<rparr>) h = main_to_gate_call e w h \<and>
   (main_to_gate_call e w h = (Inr (found, argv), t) \<longrightarrow>
      (\<exists>out args sb.
          scan w = Exited 0 out \<and> found = str_contains risk_marker out \<and>
          argv = [args, PStr (INPUT_WORKFLOW e), sb, PBool found, PStr (GITHUB_REPOSITORY e)]))"
proof (intro conjI impI)
  show "main e w h =
     bind_res (main_to_gate_call e w h)
       (\<lambda>c. bind_res (handle_pull_request_block e h (snd c)) (\<lambda>_. report_findings w (fst c)))"
    by (rule main_from_gate_call)
next
  show "main_to_gate_call e (w\<lparr>sarif_output := s\<rparr>) h = main_to_gate_call e w h"
    by (rule to_gate_call_sarif)
next
  assume r: "main_to_gate_call e w h = (Inr (found, argv), t)"
  note [simp del] = handle_pull_request_review.simps add_global_args.simps
  from r obtain args where args: "parse_workflow_args w = Inr args"
    by (cases "parse_workflow_args w") (auto simp: main_to_gate_call_def)
  from r args obtain ctx where ctx: "get_github_context e w = Inr ctx"
    by (cases "get_github_context e w") (auto simp: main_to_gate_call_def)
  from r args ctx obtain sb where sb: "dict_get args ''should-block-pull-request'' = Inr sb"
    by (cases "dict_get args ''should-block-pull-request''") (auto simp: main_to_gate_call_def)
  from r args ctx sb have wk: "INPUT_WORKFLOW e \<noteq> []"
    by (auto simp: main_to_gate_call_def Let_def split: if_splits)
  have repo: "fst ctx = GITHUB_REPOSITORY e"
    using ctx by (auto simp: get_github_context_def split: event_file.splits sum.splits)
  let ?R = "handle_pull_request_review e h [args, PStr (INPUT_WORKFLOW e), sb, PStr (fst ctx), snd ctx]"
  let ?G = "add_global_args e h [PStr (INPUT_WORKFLOW e), args, PStr (fst ctx)]"
  have m: "bind_res ?R (\<lambda>_. bind_res ?G (\<lambda>_. bind_res (run_scan w (INPUT_WORKFLOW e))
             (\<lambda>out. pure_res (Inr (check_output_for_risk_findings out,
                        block_call_arguments args (INPUT_WORKFLOW e) sb
                          (check_output_for_risk_findings out) (fst ctx))))))
           = (Inr (found, argv), t)"
    using r args ctx sb wk by (simp add: main_to_gate_call_def Let_def)
  from bind_res_returns [OF m] obtain t1 t2 where
    2: "bind_res ?G (\<lambda>_. bind_res (run_scan w (INPUT_WORKFLOW e))
             (\<lambda>out. pure_res (Inr (check_output_for_risk_findings out,
                        block_call_arguments args (INPUT_WORKFLOW e) sb
                          (check_output_for_risk_findings out) (fst ctx)))))
           = (Inr (found, argv), t2)"
    by blast
  from bind_res_returns [OF 2] obtain t3 where
    3: "bind_res (run_scan w (INPUT_WORKFLOW e))
             (\<lambda>out. pure_res (Inr (check_output_for_risk_findings out,
                        block_call_arguments args (INPUT_WORKFLOW e) sb
                          (check_output_for_risk_findings out) (fst ctx))))
           = (Inr (found, argv), t3)"
    by blast
  from bind_res_returns [OF 3] obtain out t4 t5 where
    4: "run_scan w (INPUT_WORKFLOW e) = (Inr out, t4)"
    and 5: "pure_res (Inr (check_output_for_risk_findings out,
                        block_call_arguments args (INPUT_WORKFLOW e) sb
                          (check_output_for_risk_findings out) (fst ctx)))
            = (Inr (found, argv), t5)"
    by blast
  from run_scan_returns [OF 4] have sc: "scan w = Exited 0 out" by simp
  from 5 have f: "found = str_contains risk_marker out"
    and a: "argv = [args, PStr (INPUT_WORKFLOW e), sb, PBool found, PStr (GITHUB_REPOSITORY e)]"
    by (auto simp: pure_res_def check_output_for_risk_findings_def block_call_arguments_def repo)
  from sc f a show "\<exists>out args sb.
          scan w = Exited 0 out \<and> found = str_contains risk_marker out \<and>
          argv = [args, PStr (INPUT_WORKFLOW e), sb, PBool found, PStr (GITHUB_REPOSITORY e)]"
    by blast
qed

theorem gate_call_flag_is_marker_witness:
  "main_to_gate_call pr_env flagged_world open_host =
     (Inr (True, [gate_args, PStr ''risk_flagger'', PBool True, PBool True, PStr ''octo/repo'']),
      [ScanExecuted]) \<and>
   scan flagged_world = Exited 0 flagged_output \<and>
   str_contains risk_marker flagged_output \<and>
   main_to_gate_call pr_env (flagged_world\<lparr>sarif_output := SarifData one_finding_doc\<rparr>) open_host
     = main_to_gate_call pr_env flagged_world open_host"
proof -
  let ?argv = "[gate_args, PStr ''risk_flagger'', PBool True, PBool True, PStr ''octo/repo'']"
  have r: "main_to_gate_call pr_env flagged_world open_host = (Inr (True, ?argv), [ScanExecuted])"
    by code_simp
  have s: "scan flagged_world = Exited 0 flagged_output" by (simp add: flagged_world_def)
  note t = gate_call_flag_is_marker [of pr_env flagged_world open_host "SarifData one_finding_doc"
             True ?argv "[ScanExecuted]"]
  from t r obtain out where "scan flagged_world = Exited 0 out" "True = str_contains risk_marker out"
    by blast
  with s have m: "str_contains risk_marker flagged_output" by simp
  from t have i: "main_to_gate_call pr_env (flagged_world\<lparr>sarif_output := SarifData one_finding_doc\<rparr>) open_host
     = main_to_gate_call pr_env flagged_world open_host" by blast
  from r s m i show ?thesis by blast
qed

section \<open>Missing revisions\<close>

lemma dict_get_other: "dict_get a k = Inr v \<Longrightarrow> \<exists>v'. dict_get a k' = Inr v'"
  by (cases a) simp_all

lemma create_status_check_eq:
  "create_status_check e h st de repo cx =
     (if get_github_client e \<noteq> Inl ValueError \<and> truthy repo \<and> GITHUB_SHA e \<noteq> [] \<and>
         h_get_repo h repo = None \<and> h_get_commit h repo (GITHUB_SHA e) = None \<and>
         h_create_status h repo (GITHUB_SHA e) st de cx = None
      then [StatusCreated st de cx repo (GITHUB_SHA e)] else [])"
  by (auto simp: create_status_check_def get_github_client_def Let_def
           split: sum.splits option.splits)

lemma add_global_args_missing:
  assumes "GITHUB_EVENT_NAME e = ''pull_request''"
    and "GITHUB_BASE_SHA e = [] \<or> GITHUB_SHA e = []"
    and "dict_get args k = Inr v"
  shows "add_global_args e h [wk, args, repo] =
           (Inl (SystemExit 1),
            create_status_check e h ''error'' (missing_sha_message e) repo (status_context wk))"
proof -
  obtain c where c: "dict_get args ''confidence'' = Inr c"
    using dict_get_other [OF assms(3)] by blast
  obtain t where t: "dict_get args ''temperature'' = Inr t"
    using dict_get_other [OF assms(3)] by blast
  show ?thesis using assms(1,2) by (auto simp: c t Let_def)
qed

text \<open>
  Claim C9, as stated, fails. On a \<^verbatim>\<open>pull_request\<close> event without the head revision the
  invocation exits with status 1 and creates no status at all: \<^verbatim>\<open>create_status_check\<close>
  returns when \<^verbatim>\<open>GITHUB_SHA\<close> is empty, since there is no commit to attach a status to.
\<close>

theorem no_status_without_head_revision:
  "main no_head_env quiet_world open_host = (Inl (SystemExit 1), [])"
  by code_simp

text \<open>
  Claim C9, amended. On a \<^verbatim>\<open>pull_request\<close> event without the base or the head revision
  the invocation exits with status 1 and the scanner is never run. Without the head revision
  no status is created. When the invocation reaches \<^verbatim>\<open>add_global_args\<close> (the workflow
  arguments are a JSON object, the event file gives the context, a workflow is named), the
  error status is its only effect, and it is created exactly when the head revision and the
  repository are present, a token is set, and the host answers the three calls.
\<close>

theorem missing_revision_aborts:
  assumes ev: "GITHUB_EVENT_NAME e = ''pull_request''"
    and miss: "GITHUB_BASE_SHA e = [] \<or> GITHUB_SHA e = []"
  shows "exit_status (fst (main e w h)) = 1 \<and>
         ScanExecuted \<notin> set (snd (main e w h)) \<and>
         (GITHUB_SHA e = [] \<longrightarrow> (\<forall>x\<in>set (snd (main e w h)). status_state x = None)) \<and>
         (parse_workflow_args w = Inr args \<and>
          dict_get args ''should-block-pull-request'' = Inr sb \<and>
          get_github_context e w = Inr ctx \<and> INPUT_WORKFLOW e \<noteq> [] \<longrightarrow>
            main e w h =
              (Inl (SystemExit 1),
               if get_github_client e \<noteq> Inl ValueError \<and> GITHUB_REPOSITORY e \<noteq> [] \<and>
                  GITHUB_SHA e \<noteq> [] \<and>
                  h_get_repo h (PStr (GITHUB_REPOSITORY e)) = None \<and>
                  h_get_commit h (PStr (GITHUB_REPOSITORY e)) (GITHUB_SHA e) = None \<and>
                  h_create_status h (PStr (GITHUB_REPOSITORY e)) (GITHUB_SHA e) ''error''
                    (missing_sha_message e) (status_context (PStr (INPUT_WORKFLOW e))) = None
               then [StatusCreated ''error'' (missing_sha_message e)
                       (status_context (PStr (INPUT_WORKFLOW e)))
                       (PStr (GITHUB_REPOSITORY e)) (GITHUB_SHA e)]
               else []))"
proof -
  note [simp del] = add_global_args.simps
  have R: "handle_pull_request_review e h [a, b, c, d, f] = (Inr (), [])" for a b c d f
    using ev by (simp add: emit_def)
  have reach: "main e w h =
                 (Inl (SystemExit 1),
                  create_status_check e h ''error'' (missing_sha_message e)
                    (PStr (fst ctx)) (status_context (PStr (INPUT_WORKFLOW e))))"
    if "parse_workflow_args w = Inr args" "dict_get args ''should-block-pull-request'' = Inr sb"
       "get_github_context e w = Inr ctx" "INPUT_WORKFLOW e \<noteq> []" for args sb ctx
    using that add_global_args_missing [OF ev miss that(2)]
    by (simp add: main_unfold R bind_res_Inr del: handle_pull_request_review.simps)
  have ctx_repo: "fst ctx = GITHUB_REPOSITORY e" if "get_github_context e w = Inr ctx" for ctx
    using that
    by (auto simp: get_github_context_def split: event_file.splits sum.splits)
  have shape: "(\<exists>x. main e w h = (Inl x, []) \<and> exit_status (Inl x) = 1) \<or>
               main e w h = (Inl (SystemExit 1), [WorkflowCommand [Lit ''::error::No workflow specified'']]) \<or>
               (\<exists>repo. main e w h =
                  (Inl (SystemExit 1),
                   create_status_check e h ''error'' (missing_sha_message e)
                     repo (status_context (PStr (INPUT_WORKFLOW e)))))"
  proof (cases "parse_workflow_args w")
    case (Inl x)
    then have "main e w h = (Inl x, [])" by (simp add: main_unfold)
    moreover from Inl have "x = JSONDecodeError"
      by (simp add: parse_workflow_args_def split: option.splits)
    ultimately show ?thesis by simp
  next
    case args: (Inr args)
    show ?thesis
    proof (cases "get_github_context e w")
      case (Inl x)
      with args have "main e w h = (Inl x, [])" by (simp add: main_unfold)
      moreover from Inl have "x = UnboundLocalError"
        by (auto simp: get_github_context_def split: event_file.splits sum.splits)
      ultimately show ?thesis by simp
    next
      case ctx: (Inr ctx)
      show ?thesis
      proof (cases "dict_get args ''should-block-pull-request''")
        case (Inl x)
        with args ctx have "main e w h = (Inl x, [])" by (simp add: main_unfold)
        moreover from Inl have "x = AttributeError" by (cases args) simp_all
        ultimately show ?thesis by simp
      next
        case sb: (Inr sb)
        show ?thesis
        proof (cases "INPUT_WORKFLOW e = []")
          case True
          with args ctx sb show ?thesis by (simp add: main_unfold)
        next
          case False
          from reach [OF args sb ctx False] show ?thesis by blast
        qed
      qed
    qed
  qed
  have 1: "exit_status (fst (main e w h)) = 1"
    using shape by auto
  have 2: "ScanExecuted \<notin> set (snd (main e w h))"
    using shape by (auto dest: create_status_check_effects)
  have 3: "\<forall>x\<in>set (snd (main e w h)). status_state x = None" if "GITHUB_SHA e = []"
    using shape that by (auto simp: create_status_check_eq)
  have 4: "main e w h =
              (Inl (SystemExit 1),
               if get_github_client e \<noteq> Inl ValueError \<and> GITHUB_REPOSITORY e \<noteq> [] \<and>
                  GITHUB_SHA e \<noteq> [] \<and>
                  h_get_repo h (PStr (GITHUB_REPOSITORY e)) = None \<and>
                  h_get_commit h (PStr (GITHUB_REPOSITORY e)) (GITHUB_SHA e) = None \<and>
                  h_create_status h (PStr (GITHUB_REPOSITORY e)) (GITHUB_SHA e) ''error''
                    (missing_sha_message e) (status_context (PStr (INPUT_WORKFLOW e))) = None
               then [StatusCreated ''error'' (missing_sha_message e)
                       (status_context (PStr (INPUT_WORKFLOW e)))
                       (PStr (GITHUB_REPOSITORY e)) (GITHUB_SHA e)]
               else [])"
    if "parse_workflow_args w = Inr args \<and>
          dict_get args ''should-block-pull-request'' = Inr sb \<and>
          get_github_context e w = Inr ctx \<and> INPUT_WORKFLOW e \<noteq> []"
    using reach [of args sb ctx] that ctx_repo [of ctx]
    by (simp add: create_status_check_eq)
  from 1 2 3 4 show ?thesis by blast
qed

theorem missing_revision_aborts_witness:
  "GITHUB_EVENT_NAME no_base_env = ''pull_request'' \<and> GITHUB_BASE_SHA no_base_env = [] \<and>
   exit_status (fst (main no_base_env quiet_world open_host)) = 1 \<and>
   main no_base_env quiet_world open_host =
     (Inl (SystemExit 1),
      [StatusCreated ''error'' (missing_sha_message no_base_env)
         (status_context (PStr ''risk_flagger'')) (PStr ''octo/repo'') ''4ead''])"
proof -
  have ev: "GITHUB_EVENT_NAME no_base_env = ''pull_request''" by code_simp
  have miss: "GITHUB_BASE_SHA no_base_env = [] \<or> GITHUB_SHA no_base_env = []" by code_simp
  have a: "parse_workflow_args quiet_world = Inr gate_args" by code_simp
  have b: "dict_get gate_args ''should-block-pull-request'' = Inr (PBool True)" by code_simp
  have c: "get_github_context no_base_env quiet_world = Inr (''octo/repo'', PInt 7)" by code_simp
  have d: "INPUT_WORKFLOW no_base_env = ''risk_flagger''" by code_simp
  have e: "GITHUB_REPOSITORY no_base_env = ''octo/repo''" "GITHUB_SHA no_base_env = ''4ead''"
          "get_github_client no_base_env = Inr ''t0ken''" by code_simp+
  from missing_revision_aborts [OF ev miss, of quiet_world open_host gate_args "PBool True"
         "(''octo/repo'', PInt 7)"] a b c d e
  show ?thesis using ev miss by (simp add: open_host_def)
qed


section \<open>Rendering an empty results document\<close>

lemma get_results_empty_iff: "get_results d = [] \<longleftrightarrow> (\<forall>rn\<in>set (runs d). results rn = [])"
  by (simp add: get_results_def run_results_def)

lemma str_nat_0: "str_nat 0 = ''0''"
  by code_simp


text \<open>
  Claim C4, as stated, fails. For a results document without runs \<^verbatim>\<open>create_pr_comment\<close>
  posts nothing: the pull request has no comment afterwards, so no no-issues body was
  produced. Nor is the no-issues body of \<^verbatim>\<open>_build_comment_body\<close> fixed: it names the tool of
  the first run, and differs between a document without runs and one whose run has no results.
\<close>

theorem empty_document_posts_no_comment:
  "create_pr_comment pr_env open_comment_host ''Security Findings'' \<lparr>runs = []\<rparr> False []
     = (Inr (), []) \<and>
   build_comment_body ''Security Findings'' \<lparr>runs = []\<rparr> (get_results \<lparr>runs = []\<rparr>)
     \<noteq> build_comment_body ''Security Findings'' empty_run_doc (get_results empty_run_doc)"
  by code_simp

text \<open>
  Claim C4, amended. For a results document with zero runs or zero results,
  \<^verbatim>\<open>create_pr_comment\<close> returns at once: it builds and posts no comment, in a dry run or not
  and whatever the host does, and the comments of the pull request stay as they are;
  \<^verbatim>\<open>create_annotations\<close> prints no annotation. The no-issues body is what
  \<^verbatim>\<open>_build_comment_body\<close> would return for the empty sequence: the heading with the title, the
  tool line, a total of 0 and the no-issues line.
\<close>

theorem empty_document_short_circuits:
  assumes "\<forall>rn\<in>set (runs d). results rn = []"
  shows "create_pr_comment e ch comment_title d dry_run comments = (Inr (), comments) \<and>
         create_annotations d dry_run = [] \<and>
         process_sarif_file e ch (SarifData d) comment_title dry_run comments
           = (Inr (), comments, []) \<and>
         build_comment_body comment_title d (get_results d) =
           join_lines [''## '' @ comment_title, [],
                       ''**Tool:** '' @ fst (get_tool_info d) @ '' '' @ snd (get_tool_info d),
                       ''**Total Findings:** 0'', [],
                       glyph_check @ '' No security issues found!'']"
proof -
  from assms have e: "get_results d = []" by (simp add: get_results_empty_iff)
  have 1: "create_pr_comment e ch comment_title d dry_run comments = (Inr (), comments)"
    by (simp add: create_pr_comment_def e)
  have 2: "create_annotations d dry_run = []"
    by (simp add: create_annotations_def e)
  have 3: "process_sarif_file e ch (SarifData d) comment_title dry_run comments
           = (Inr (), comments, [])"
    by (simp add: process_sarif_file_def 1 2)
  have 4: "build_comment_body comment_title d (get_results d) =
           join_lines [''## '' @ comment_title, [],
                       ''**Tool:** '' @ fst (get_tool_info d) @ '' '' @ snd (get_tool_info d),
                       ''**Total Findings:** 0'', [],
                       glyph_check @ '' No security issues found!'']"
    by (simp add: e build_comment_body_def summary_lines_def str_nat_0)
  from 1 2 3 4 show ?thesis by blast
qed

theorem empty_document_short_circuits_witness:
  "map results (runs empty_run_doc) = [[]] \<and>
   process_sarif_file pr_env open_comment_host (SarifData empty_run_doc) ''Security Findings''
     False [''LGTM''] = (Inr (), [''LGTM''], [])"
proof -
  have h: "\<forall>rn\<in>set (runs empty_run_doc). results rn = []"
    by (simp add: empty_run_doc_def)
  from empty_document_short_circuits [OF h, of pr_env open_comment_host "''Security Findings''"
         False "[''LGTM'']"]
  show ?thesis by (simp add: empty_run_doc_def)
qed


section \<open>Annotations\<close>

lemma annotation_loop_map_filter:
  "annotation_loop dry_run rs = List.map_filter (annotation_of dry_run) rs"
  by (induction rs) (simp_all split: option.splits)

text \<open>
  Claim C10. The annotations printed are those of the findings for which the loop body
  yields one, in document order. A finding whose start line is 0 yields none. An annotation
  of a finding whose start column is absent or 0 has column 1, and its line reads
  \<^verbatim>\<open>col=1\<close>.
\<close>

theorem zero_location_fields_absent:
  "create_annotations d dry_run =
     map annotation_line (List.map_filter (annotation_of dry_run) (get_results d)) \<and>
   (start_line r = Some 0 \<longrightarrow> annotation_of dry_run r = None) \<and>
   (annotation_of dry_run r = Some a \<longrightarrow> start_column r = None \<or> start_column r = Some 0 \<longrightarrow>
      a_col a = 1 \<and>
      annotation_line a =
        ''::'' @ a_level a @ '' file='' @ a_file a @ '',line='' @ str_int (a_line a)
        @ '',col=1::'' @ a_message a)"
proof (intro conjI impI)
  show "create_annotations d dry_run =
          map annotation_line (List.map_filter (annotation_of dry_run) (get_results d))"
    by (simp add: create_annotations_def annotation_loop_map_filter Let_def)
next
  assume "start_line r = Some 0"
  then show "annotation_of dry_run r = None"
    by (simp add: annotation_of_def split: option.splits)
next
  assume a: "annotation_of dry_run r = Some a"
    and c: "start_column r = None \<or> start_column r = Some 0"
  from a c show col: "a_col a = 1"
    by (auto simp: annotation_of_def split: option.splits if_splits)
  have "str_int 1 = ''1''" by code_simp
  with col show "annotation_line a =
        ''::'' @ a_level a @ '' file='' @ a_file a @ '',line='' @ str_int (a_line a)
        @ '',col=1::'' @ a_message a"
    by (simp add: annotation_line_def)
qed

theorem zero_location_fields_absent_witness:
  "start_line zero_line_result = Some 0 \<and>
   annotation_of False zero_line_result = None \<and>
   start_column zero_column_result = Some 0 \<and>
   (\<exists>a. annotation_of False zero_column_result = Some a \<and> a_col a = 1) \<and>
   get_results zero_fields_doc = [zero_line_result, zero_column_result] \<and>
   create_annotations zero_fields_doc False
     = [''::warning file=b.py,line=3,col=1::unknown-rule: No message available'']"
proof -
  let ?a = "\<lparr>a_level = ''warning'', a_file = ''b.py'', a_line = 3, a_col = 1,
             a_message = ''unknown-rule: No message available''\<rparr>"
  have 0: "start_line zero_line_result = Some 0" by code_simp
  have 1: "start_column zero_column_result = Some 0" by code_simp
  have 2: "get_results zero_fields_doc = [zero_line_result, zero_column_result]" by code_simp
  have 3: "annotation_of False zero_column_result = Some ?a" by code_simp
  have 4: "str_int 3 = ''3''" by code_simp
  from zero_location_fields_absent [of zero_fields_doc False zero_line_result] 0
  have 5: "annotation_of False zero_line_result = None" by blast
  from zero_location_fields_absent [of zero_fields_doc False zero_column_result ?a] 1 3
  have 6: "a_col ?a = 1"
    and 7: "annotation_line ?a =
              ''::'' @ a_level ?a @ '' file='' @ a_file ?a @ '',line='' @ str_int (a_line ?a)
              @ '',col=1::'' @ a_message ?a"
    and 8: "create_annotations zero_fields_doc False =
              map annotation_line (List.map_filter (annotation_of False) (get_results zero_fields_doc))"
    by blast+
  from 7 have 9: "annotation_line ?a =
      ''::warning file=b.py,line=3,col=1::unknown-rule: No message available''"
    by (simp add: 4)
  have 10: "create_annotations zero_fields_doc False
     = [''::warning file=b.py,line=3,col=1::unknown-rule: No message available'']"
    by (simp only: 8 2 map_filter_simps 3 5 option.case list.map 9)
  from 0 1 2 3 5 6 10 show ?thesis by blast
qed

section \<open>Levels\<close>





section \<open>The identity of the comment\<close>

lemma join_lines_prefix: "prefix l (join_lines (l # ls))"
  by (cases ls) simp_all

lemma comment_body_heading:
  "prefix (''## '' @ comment_title) (build_comment_body comment_title d rs)"
proof -
  obtain ls where "summary_lines comment_title d rs = (''## '' @ comment_title) # ls"
    by (simp add: summary_lines_def Let_def)
  then show ?thesis
    by (simp only: build_comment_body_def Let_def append_Cons join_lines_prefix if_split) simp
qed

lemma find_existing_none:
  "find_existing_comment heading i (paginate None cs) = Inr None
     \<longleftrightarrow> (\<forall>b\<in>set cs. \<not> prefix heading b)"
  by (induction cs arbitrary: i) auto

lemma find_existing_first:
  "k < length cs \<Longrightarrow> prefix heading (cs ! k) \<Longrightarrow> \<forall>j<k. \<not> prefix heading (cs ! j) \<Longrightarrow>
     find_existing_comment heading i (paginate None cs) = Inr (Some (i + k))"
proof (induction cs arbitrary: i k)
  case Nil
  then show ?case by simp
next
  case (Cons b bs)
  show ?case
  proof (cases k)
    case 0
    with Cons.prems show ?thesis by simp
  next
    case (Suc k')
    from Cons.prems Suc have nb: "\<not> prefix heading b" by auto
    from Cons.prems Suc have "\<forall>j<k'. \<not> prefix heading (bs ! j)" by auto
    with Cons.prems Suc Cons.IH [of k' "Suc i"] nb show ?thesis by simp
  qed
qed

lemma first_match_exists:
  "\<exists>b\<in>set cs. P b \<Longrightarrow> \<exists>i<length cs. P (cs ! i) \<and> (\<forall>j<i. \<not> P (cs ! j))"
proof -
  assume "\<exists>b\<in>set cs. P b"
  then obtain n where n: "n < length cs \<and> P (cs ! n)"
    by (auto simp: in_set_conv_nth)
  define i where "i = (LEAST n. n < length cs \<and> P (cs ! n))"
  have "i < length cs \<and> P (cs ! i)"
    unfolding i_def by (rule LeastI [of _ n]) (rule n)
  moreover have "\<not> P (cs ! j)" if "j < i" for j
  proof
    assume "P (cs ! j)"
    with that calculation have "j < length cs \<and> P (cs ! j)" by simp
    then have "i \<le> j" unfolding i_def by (rule Least_le)
    with that show False by simp
  qed
  ultimately show ?thesis by blast
qed

text \<open>
  Claim C5, as stated, fails. With a results document that holds no finding, two invocations
  on a pull request without comments leave no comment, not one; and a comment that starts
  with the heading is left as it is, not edited.
\<close>

theorem clean_scan_leaves_no_comment:
  "length (snd (create_pr_comment pr_env open_comment_host ''Security Findings'' empty_run_doc False
             (snd (create_pr_comment pr_env open_comment_host ''Security Findings''
                     empty_run_doc False [])))) = 0 \<and>
   create_pr_comment pr_env open_comment_host ''Security Findings'' empty_run_doc False
       [''## Security Findings (stale)'']
     = (Inr (), [''## Security Findings (stale)''])"
  by code_simp

text \<open>
  Claim C5, amended to invocations with findings to report. With a non-empty finding
  sequence, a token and a host that answers, outside a dry run: the search finds no comment
  exactly when no body starts with \<^verbatim>\<open>"## "\<close> followed by the title. If no comment starts
  so, the new body is appended as a new comment; if one does, the first such comment is
  edited and no comment is created. The body posted starts with that heading itself, so a
  second invocation with the same findings edits the comment of the first and leaves the
  comments as they were: on a pull request without comments there is one comment after two
  invocations.
\<close>

theorem comment_update_idempotent:
  assumes ne: "get_results d \<noteq> []"
    and tok: "get_github_client e = Inr token"
    and host: "ch_get_repo ch = None" "ch_get_pull ch = None" "ch_page_failure ch = None"
              "ch_edit ch = None" "ch_create_issue_comment ch = None"
  shows "((find_existing_comment (''## '' @ comment_title) 0 (paginate None cs) = Inr None)
            = (\<forall>b\<in>set cs. \<not> prefix (''## '' @ comment_title) b)) \<and>
         fst (create_pr_comment e ch comment_title d False cs) = Inr () \<and>
         ((\<forall>b\<in>set cs. \<not> prefix (''## '' @ comment_title) b) \<longrightarrow>
            snd (create_pr_comment e ch comment_title d False cs)
              = cs @ [build_comment_body comment_title d (get_results d)]) \<and>
         ((\<exists>b\<in>set cs. prefix (''## '' @ comment_title) b) \<longrightarrow>
            (\<exists>i<length cs. prefix (''## '' @ comment_title) (cs ! i) \<and>
               (\<forall>j<i. \<not> prefix (''## '' @ comment_title) (cs ! j)) \<and>
               snd (create_pr_comment e ch comment_title d False cs)
                 = cs[i := build_comment_body comment_title d (get_results d)])) \<and>
         create_pr_comment e ch comment_title d False
             (snd (create_pr_comment e ch comment_title d False cs))
           = (Inr (), snd (create_pr_comment e ch comment_title d False cs)) \<and>
         (cs = [] \<longrightarrow>
            length (snd (create_pr_comment e ch comment_title d False
                      (snd (create_pr_comment e ch comment_title d False cs)))) = 1)"
proof -
  let ?H = "''## '' @ comment_title"
  let ?body = "build_comment_body comment_title d (get_results d)"
  let ?post = "\<lambda>cs. create_pr_comment e ch comment_title d False cs"
  have pb: "prefix ?H ?body" by (rule comment_body_heading)
  have new: "?post cs = (Inr (), cs @ [?body])" if "\<forall>b\<in>set cs. \<not> prefix ?H b" for cs
    using that ne tok host find_existing_none [of ?H 0 cs]
    by (simp add: create_pr_comment_def Let_def)
  have upd: "?post cs = (Inr (), cs[i := ?body])"
    if "i < length cs" "prefix ?H (cs ! i)" "\<forall>j<i. \<not> prefix ?H (cs ! j)" for cs i
    using that ne tok host find_existing_first [of i cs ?H 0]
    by (simp add: create_pr_comment_def Let_def)
  have A: "(find_existing_comment ?H 0 (paginate None cs) = Inr None)
            = (\<forall>b\<in>set cs. \<not> prefix ?H b)"
    by (rule find_existing_none)
  have D: "\<exists>i<length cs. prefix ?H (cs ! i) \<and> (\<forall>j<i. \<not> prefix ?H (cs ! j)) \<and>
             snd (?post cs) = cs[i := ?body]"
    if "\<exists>b\<in>set cs. prefix ?H b"
  proof -
    from first_match_exists [of cs "prefix ?H", OF that]
    obtain i where i: "i < length cs" "prefix ?H (cs ! i)" "\<forall>j<i. \<not> prefix ?H (cs ! j)"
      by blast
    from upd [OF i] i show ?thesis by auto
  qed
  have C: "snd (?post cs) = cs @ [?body]" if "\<forall>b\<in>set cs. \<not> prefix ?H b"
    using new [OF that] by simp
  have B: "fst (?post cs) = Inr ()"
  proof (cases "\<exists>b\<in>set cs. prefix ?H b")
    case True
    from first_match_exists [of cs "prefix ?H", OF True]
    obtain i where i: "i < length cs" "prefix ?H (cs ! i)" "\<forall>j<i. \<not> prefix ?H (cs ! j)"
      by blast
    from upd [OF i] show ?thesis by simp
  next
    case False
    then show ?thesis using new [of cs] by simp
  qed
  have E: "?post (snd (?post cs)) = (Inr (), snd (?post cs))"
  proof (cases "\<exists>b\<in>set cs. prefix ?H b")
    case True
    from first_match_exists [of cs "prefix ?H", OF True]
    obtain i where i: "i < length cs" "prefix ?H (cs ! i)" "\<forall>j<i. \<not> prefix ?H (cs ! j)"
      by blast
    let ?cs1 = "cs[i := ?body]"
    have 1: "snd (?post cs) = ?cs1" using upd [OF i] by simp
    have "?post ?cs1 = (Inr (), ?cs1[i := ?body])"
      using i pb by (intro upd) simp_all
    then show ?thesis by (simp add: 1)
  next
    case False
    let ?cs1 = "cs @ [?body]"
    have 1: "snd (?post cs) = ?cs1" using new [of cs] False by simp
    have "?post ?cs1 = (Inr (), ?cs1[length cs := ?body])"
      using False pb by (intro upd) (simp_all add: nth_append)
    then show ?thesis by (simp add: 1)
  qed
  have F: "length (snd (?post (snd (?post cs)))) = 1" if "cs = []"
    using that E new [of "[]"] by simp
  from A B C D E F show ?thesis by blast
qed

theorem comment_update_idempotent_witness:
  "get_results one_finding_doc \<noteq> [] \<and> get_github_client pr_env = Inr ''t0ken'' \<and>
   length (snd (create_pr_comment pr_env open_comment_host ''Security Findings'' one_finding_doc False
             (snd (create_pr_comment pr_env open_comment_host ''Security Findings''
                     one_finding_doc False [])))) = 1 \<and>
   snd (create_pr_comment pr_env open_comment_host ''Security Findings'' one_finding_doc False
          [''LGTM'', ''## Security Findings (stale)''])
     = [''LGTM'', build_comment_body ''Security Findings'' one_finding_doc
                    (get_results one_finding_doc)]"
proof -
  have ne: "get_results one_finding_doc \<noteq> []" by code_simp
  have tok: "get_github_client pr_env = Inr ''t0ken''" by code_simp
  have host: "ch_get_repo open_comment_host = None" "ch_get_pull open_comment_host = None"
    "ch_page_failure open_comment_host = None" "ch_edit open_comment_host = None"
    "ch_create_issue_comment open_comment_host = None"
    by (simp_all add: open_comment_host_def)
  note thm1 = comment_update_idempotent [OF ne tok host, of "''Security Findings''" "[]"]
  note thm2 = comment_update_idempotent [OF ne tok host, of "''Security Findings''"
                "[''LGTM'', ''## Security Findings (stale)'']"]
  from thm1 have 1: "length (snd (create_pr_comment pr_env open_comment_host ''Security Findings'' one_finding_doc False
             (snd (create_pr_comment pr_env open_comment_host ''Security Findings''
                     one_finding_doc False [])))) = 1"
    by blast
  have ex: "\<exists>b\<in>set [''LGTM'', ''## Security Findings (stale)'']. prefix (''## '' @ ''Security Findings'') b"
    by simp
  from thm2 ex obtain i where i: "i < length [''LGTM'', ''## Security Findings (stale)'']"
    "prefix (''## '' @ ''Security Findings'') ([''LGTM'', ''## Security Findings (stale)''] ! i)"
    "snd (create_pr_comment pr_env open_comment_host ''Security Findings'' one_finding_doc False
          [''LGTM'', ''## Security Findings (stale)''])
     = [''LGTM'', ''## Security Findings (stale)'']
         [i := build_comment_body ''Security Findings'' one_finding_doc (get_results one_finding_doc)]"
    by blast
  from i(1,2) have "i = 1" by (cases i) auto
  with i(3) have 2: "snd (create_pr_comment pr_env open_comment_host ''Security Findings'' one_finding_doc False
          [''LGTM'', ''## Security Findings (stale)''])
     = [''LGTM'', build_comment_body ''Security Findings'' one_finding_doc
                    (get_results one_finding_doc)]"
    by simp
  from ne tok 1 2 show ?thesis by blast
qed


end
